theory Spec2Isabelle
  imports Complex_Main "HOL-Library.Word"
begin

section \<open>The REST web service of src/webserver/webserver.go\<close>

text \<open>
  The service keeps its whole state in package-level variables: strings for the device,
  the temperatures and the times, two arrays of two strings for the modes, a slice of
  pointers to articles and a slice of pointers to users. Handlers read and assign these
  variables. The model passes the state explicitly: a handler takes the request and the
  state and returns the response and the new state.

  Strings are byte strings, as the strings of Go are: a character of the model is a byte.
  Output written with \<open>println\<close>, \<open>fmt.Printf\<close> and by the
  logging middleware goes to the process's standard streams and is not modelled.
\<close>

subsection \<open>Strings and formatting\<close>

text \<open>
  A rune is the number of a code point. \<open>DecodeRune\<close> is \<open>utf8.DecodeRune\<close>: the first
  rune of a byte string and its width in bytes, and \<open>RuneError\<close> with width 1 where the
  string does not start with the UTF-8 encoding of a code point. \<open>EncodeRune\<close> gives the
  bytes \<open>utf8.AppendRune\<close> appends, and \<open>runes\<close> the runes a \<open>range\<close> loop over a
  string meets.
\<close>

type_synonym rune = nat

definition RuneError :: rune where
  "RuneError = 0xFFFD"

fun DecodeRune :: "string \<Rightarrow> rune \<times> nat" where
  "DecodeRune [] = (RuneError, 0)"
| "DecodeRune (c # cs) =
     (let p0 = (of_char c :: nat);
          sz = (if p0 < 0xE0 then 2 else if p0 < 0xF0 then 3 else 4 :: nat);
          lo = (if p0 = 0xE0 then 0xA0 else if p0 = 0xF0 then 0x90 else 0x80 :: nat);
          hi = (if p0 = 0xED then 0x9F else if p0 = 0xF4 then 0x8F else 0xBF :: nat)
      in if p0 < 0x80 then (p0, 1)
         else if p0 < 0xC2 \<or> 0xF4 < p0 then (RuneError, 1)
         else if length (c # cs) < sz then (RuneError, 1)
         else
           (let b1 = (of_char (cs ! 0) :: nat)
            in if b1 < lo \<or> hi < b1 then (RuneError, 1)
               else if sz \<le> 2 then (p0 mod 32 * 64 + b1 mod 64, 2)
               else
                 (let b2 = (of_char (cs ! 1) :: nat)
                  in if b2 < 0x80 \<or> 0xBF < b2 then (RuneError, 1)
                     else if sz \<le> 3 then (p0 mod 16 * 4096 + b1 mod 64 * 64 + b2 mod 64, 3)
                     else
                       (let b3 = (of_char (cs ! 2) :: nat)
                        in if b3 < 0x80 \<or> 0xBF < b3 then (RuneError, 1)
                           else (p0 mod 8 * 262144 + b1 mod 64 * 4096 + b2 mod 64 * 64
                                   + b3 mod 64, 4)))))"

declare DecodeRune.simps [simp del]

definition EncodeRune :: "rune \<Rightarrow> string" where
  "EncodeRune r =
     (if r \<le> 0x7F then [char_of r]
      else if r \<le> 0x7FF then [char_of (0xC0 + r div 64), char_of (0x80 + r mod 64)]
      else if 0x10FFFF < r \<or> 0xD800 \<le> r \<and> r \<le> 0xDFFF then [CHR 0xEF, CHR 0xBF, CHR 0xBD]
      else if r \<le> 0xFFFF then
        [char_of (0xE0 + r div 4096), char_of (0x80 + r div 64 mod 64), char_of (0x80 + r mod 64)]
      else
        [char_of (0xF0 + r div 262144), char_of (0x80 + r div 4096 mod 64),
         char_of (0x80 + r div 64 mod 64), char_of (0x80 + r mod 64)])"

fun runes :: "string \<Rightarrow> rune list" where
  "runes [] = []"
| "runes (c # cs) = fst (DecodeRune (c # cs)) # runes (drop (snd (DecodeRune (c # cs)) - 1) cs)"

declare runes.simps [simp del]

text \<open>
  \<open>strings.Map\<close> for a mapping that drops no rune: every rune of the string is mapped
  and encoded, so a byte that starts no encoding becomes the three bytes of \<open>U+FFFD\<close>.
\<close>

definition strings_Map :: "(rune \<Rightarrow> rune) \<Rightarrow> string \<Rightarrow> string" where
  "strings_Map mapping s = concat (map (\<lambda>c. EncodeRune (mapping c)) (runes s))"

text \<open>
  The ranges of \<open>unicode.CaseRanges\<close> whose runes have a lower case other than
  themselves, with the distance to it; in an \<open>UpperLower\<close> range upper and lower case
  alternate, starting with an upper case. The table holds the simple lower-case mappings
  of the Unicode Character Database, version 14.0.0; the table of the \<open>unicode\<close> package is
  the one of the Unicode version of the Go release.
\<close>

datatype delta = Delta int | UpperLower

definition CaseRanges :: "(rune \<times> rune \<times> delta) list" where
  "CaseRanges =
    [(0x00C0, 0x00D6, Delta 32), (0x00D8, 0x00DE, Delta 32), (0x0100, 0x012F, UpperLower),
     (0x0130, 0x0130, Delta (- 199)), (0x0132, 0x0137, UpperLower), (0x0139, 0x0148, UpperLower),
     (0x014A, 0x0177, UpperLower), (0x0178, 0x0178, Delta (- 121)), (0x0179, 0x017E, UpperLower),
     (0x0181, 0x0181, Delta 210), (0x0182, 0x0185, UpperLower), (0x0186, 0x0186, Delta 206),
     (0x0187, 0x0187, Delta 1), (0x0189, 0x018A, Delta 205), (0x018B, 0x018B, Delta 1),
     (0x018E, 0x018E, Delta 79), (0x018F, 0x018F, Delta 202), (0x0190, 0x0190, Delta 203),
     (0x0191, 0x0191, Delta 1), (0x0193, 0x0193, Delta 205), (0x0194, 0x0194, Delta 207),
     (0x0196, 0x0196, Delta 211), (0x0197, 0x0197, Delta 209), (0x0198, 0x0198, Delta 1),
     (0x019C, 0x019C, Delta 211), (0x019D, 0x019D, Delta 213), (0x019F, 0x019F, Delta 214),
     (0x01A0, 0x01A5, UpperLower), (0x01A6, 0x01A6, Delta 218), (0x01A7, 0x01A7, Delta 1),
     (0x01A9, 0x01A9, Delta 218), (0x01AC, 0x01AC, Delta 1), (0x01AE, 0x01AE, Delta 218),
     (0x01AF, 0x01AF, Delta 1), (0x01B1, 0x01B2, Delta 217), (0x01B3, 0x01B6, UpperLower),
     (0x01B7, 0x01B7, Delta 219), (0x01B8, 0x01B8, Delta 1), (0x01BC, 0x01BC, Delta 1),
     (0x01C4, 0x01C4, Delta 2), (0x01C5, 0x01C5, Delta 1), (0x01C7, 0x01C7, Delta 2),
     (0x01C8, 0x01C8, Delta 1), (0x01CA, 0x01CA, Delta 2), (0x01CB, 0x01DC, UpperLower),
     (0x01DE, 0x01EF, UpperLower), (0x01F1, 0x01F1, Delta 2), (0x01F2, 0x01F5, UpperLower),
     (0x01F6, 0x01F6, Delta (- 97)), (0x01F7, 0x01F7, Delta (- 56)),
     (0x01F8, 0x021F, UpperLower), (0x0220, 0x0220, Delta (- 130)), (0x0222, 0x0233, UpperLower),
     (0x023A, 0x023A, Delta 10795), (0x023B, 0x023B, Delta 1), (0x023D, 0x023D, Delta (- 163)),
     (0x023E, 0x023E, Delta 10792), (0x0241, 0x0241, Delta 1), (0x0243, 0x0243, Delta (- 195)),
     (0x0244, 0x0244, Delta 69), (0x0245, 0x0245, Delta 71), (0x0246, 0x024F, UpperLower),
     (0x0370, 0x0373, UpperLower), (0x0376, 0x0376, Delta 1), (0x037F, 0x037F, Delta 116),
     (0x0386, 0x0386, Delta 38), (0x0388, 0x038A, Delta 37), (0x038C, 0x038C, Delta 64),
     (0x038E, 0x038F, Delta 63), (0x0391, 0x03A1, Delta 32), (0x03A3, 0x03AB, Delta 32),
     (0x03CF, 0x03CF, Delta 8), (0x03D8, 0x03EF, UpperLower), (0x03F4, 0x03F4, Delta (- 60)),
     (0x03F7, 0x03F7, Delta 1), (0x03F9, 0x03F9, Delta (- 7)), (0x03FA, 0x03FA, Delta 1),
     (0x03FD, 0x03FF, Delta (- 130)), (0x0400, 0x040F, Delta 80), (0x0410, 0x042F, Delta 32),
     (0x0460, 0x0481, UpperLower), (0x048A, 0x04BF, UpperLower), (0x04C0, 0x04C0, Delta 15),
     (0x04C1, 0x04CE, UpperLower), (0x04D0, 0x052F, UpperLower), (0x0531, 0x0556, Delta 48),
     (0x10A0, 0x10C5, Delta 7264), (0x10C7, 0x10C7, Delta 7264), (0x10CD, 0x10CD, Delta 7264),
     (0x13A0, 0x13EF, Delta 38864), (0x13F0, 0x13F5, Delta 8), (0x1C90, 0x1CBA, Delta (- 3008)),
     (0x1CBD, 0x1CBF, Delta (- 3008)), (0x1E00, 0x1E95, UpperLower),
     (0x1E9E, 0x1E9E, Delta (- 7615)), (0x1EA0, 0x1EFF, UpperLower),
     (0x1F08, 0x1F0F, Delta (- 8)), (0x1F18, 0x1F1D, Delta (- 8)), (0x1F28, 0x1F2F, Delta (- 8)),
     (0x1F38, 0x1F3F, Delta (- 8)), (0x1F48, 0x1F4D, Delta (- 8)), (0x1F59, 0x1F59, Delta (- 8)),
     (0x1F5B, 0x1F5B, Delta (- 8)), (0x1F5D, 0x1F5D, Delta (- 8)), (0x1F5F, 0x1F5F, Delta (- 8)),
     (0x1F68, 0x1F6F, Delta (- 8)), (0x1F88, 0x1F8F, Delta (- 8)), (0x1F98, 0x1F9F, Delta (- 8)),
     (0x1FA8, 0x1FAF, Delta (- 8)), (0x1FB8, 0x1FB9, Delta (- 8)),
     (0x1FBA, 0x1FBB, Delta (- 74)), (0x1FBC, 0x1FBC, Delta (- 9)),
     (0x1FC8, 0x1FCB, Delta (- 86)), (0x1FCC, 0x1FCC, Delta (- 9)),
     (0x1FD8, 0x1FD9, Delta (- 8)), (0x1FDA, 0x1FDB, Delta (- 100)),
     (0x1FE8, 0x1FE9, Delta (- 8)), (0x1FEA, 0x1FEB, Delta (- 112)),
     (0x1FEC, 0x1FEC, Delta (- 7)), (0x1FF8, 0x1FF9, Delta (- 128)),
     (0x1FFA, 0x1FFB, Delta (- 126)), (0x1FFC, 0x1FFC, Delta (- 9)),
     (0x2126, 0x2126, Delta (- 7517)), (0x212A, 0x212A, Delta (- 8383)),
     (0x212B, 0x212B, Delta (- 8262)), (0x2132, 0x2132, Delta 28), (0x2160, 0x216F, Delta 16),
     (0x2183, 0x2183, Delta 1), (0x24B6, 0x24CF, Delta 26), (0x2C00, 0x2C2F, Delta 48),
     (0x2C60, 0x2C60, Delta 1), (0x2C62, 0x2C62, Delta (- 10743)),
     (0x2C63, 0x2C63, Delta (- 3814)), (0x2C64, 0x2C64, Delta (- 10727)),
     (0x2C67, 0x2C6C, UpperLower), (0x2C6D, 0x2C6D, Delta (- 10780)),
     (0x2C6E, 0x2C6E, Delta (- 10749)), (0x2C6F, 0x2C6F, Delta (- 10783)),
     (0x2C70, 0x2C70, Delta (- 10782)), (0x2C72, 0x2C72, Delta 1), (0x2C75, 0x2C75, Delta 1),
     (0x2C7E, 0x2C7F, Delta (- 10815)), (0x2C80, 0x2CE3, UpperLower),
     (0x2CEB, 0x2CEE, UpperLower), (0x2CF2, 0x2CF2, Delta 1), (0xA640, 0xA66D, UpperLower),
     (0xA680, 0xA69B, UpperLower), (0xA722, 0xA72F, UpperLower), (0xA732, 0xA76F, UpperLower),
     (0xA779, 0xA77C, UpperLower), (0xA77D, 0xA77D, Delta (- 35332)),
     (0xA77E, 0xA787, UpperLower), (0xA78B, 0xA78B, Delta 1), (0xA78D, 0xA78D, Delta (- 42280)),
     (0xA790, 0xA793, UpperLower), (0xA796, 0xA7A9, UpperLower),
     (0xA7AA, 0xA7AA, Delta (- 42308)), (0xA7AB, 0xA7AB, Delta (- 42319)),
     (0xA7AC, 0xA7AC, Delta (- 42315)), (0xA7AD, 0xA7AD, Delta (- 42305)),
     (0xA7AE, 0xA7AE, Delta (- 42308)), (0xA7B0, 0xA7B0, Delta (- 42258)),
     (0xA7B1, 0xA7B1, Delta (- 42282)), (0xA7B2, 0xA7B2, Delta (- 42261)),
     (0xA7B3, 0xA7B3, Delta 928), (0xA7B4, 0xA7C3, UpperLower), (0xA7C4, 0xA7C4, Delta (- 48)),
     (0xA7C5, 0xA7C5, Delta (- 42307)), (0xA7C6, 0xA7C6, Delta (- 35384)),
     (0xA7C7, 0xA7CA, UpperLower), (0xA7D0, 0xA7D0, Delta 1), (0xA7D6, 0xA7D9, UpperLower),
     (0xA7F5, 0xA7F5, Delta 1), (0xFF21, 0xFF3A, Delta 32), (0x10400, 0x10427, Delta 40),
     (0x104B0, 0x104D3, Delta 40), (0x10570, 0x1057A, Delta 39), (0x1057C, 0x1058A, Delta 39),
     (0x1058C, 0x10592, Delta 39), (0x10594, 0x10595, Delta 39), (0x10C80, 0x10CB2, Delta 64),
     (0x118A0, 0x118BF, Delta 32), (0x16E40, 0x16E5F, Delta 32), (0x1E900, 0x1E921, Delta 34)]"

text \<open>\<open>unicode.ToLower\<close>.\<close>

definition unicode_ToLower :: "rune \<Rightarrow> rune" where
  "unicode_ToLower r =
     (if r \<le> 0x7F then (if 0x41 \<le> r \<and> r \<le> 0x5A then r + 0x20 else r)
      else
        (case find (\<lambda>cr. fst cr \<le> r \<and> r \<le> fst (snd cr)) CaseRanges of
           None \<Rightarrow> r
         | Some cr \<Rightarrow>
             (case snd (snd cr) of
                Delta n \<Rightarrow> nat (int r + n)
              | UpperLower \<Rightarrow> fst cr + ((r - fst cr) div 2 * 2 + 1))))"

definition lower_char :: "char \<Rightarrow> char" where
  "lower_char c =
     (case map_of (zip ''ABCDEFGHIJKLMNOPQRSTUVWXYZ'' ''abcdefghijklmnopqrstuvwxyz'') c of
        Some c' \<Rightarrow> c'
      | None \<Rightarrow> c)"

text \<open>
  \<open>strings.ToLower\<close>: in a string of ASCII bytes the letters \<open>A..Z\<close> are lower-cased
  byte by byte; any other string is mapped rune by rune with \<open>unicode.ToLower\<close>.
\<close>

definition ToLower :: "string \<Rightarrow> string" where
  "ToLower s =
     (if list_all (\<lambda>c. (of_char c :: nat) < 0x80) s then map lower_char s
      else strings_Map unicode_ToLower s)"

text \<open>
  The match of a JSON key \<open>t\<close> with the JSON name \<open>s\<close> of a field, for a name of ASCII
  bytes as all names of the program are: \<open>encoding/json\<close> takes the field whose name is
  the key, or else the first field whose name is the key up to Unicode case folding. An
  ASCII letter of the name matches itself in either case, and of all other runes only
  \<open>U+017F\<close> (long s) folds to \<open>s\<close> and \<open>U+212A\<close> (Kelvin sign) folds to \<open>k\<close>; any
  other byte of the name matches itself only.
\<close>

definition smallLongEss :: rune where
  "smallLongEss = 0x17F"

definition kelvin :: rune where
  "kelvin = 0x212A"

fun equalFold :: "string \<Rightarrow> string \<Rightarrow> bool" where
  "equalFold [] t = (t = [])"
| "equalFold (sb # s) [] = False"
| "equalFold (sb # s) (tb # t) =
     (if (of_char tb :: nat) < 0x80 then lower_char sb = lower_char tb \<and> equalFold s t
      else
        (let res = DecodeRune (tb # t)
         in ((sb = CHR ''s'' \<or> sb = CHR ''S'') \<and> fst res = smallLongEss \<or>
             (sb = CHR ''k'' \<or> sb = CHR ''K'') \<and> fst res = kelvin) \<and>
            equalFold s (drop (snd res) (tb # t))))"

definition digit :: "nat \<Rightarrow> char" where
  "digit d = ''0123456789'' ! (d mod 10)"

fun digits :: "nat \<Rightarrow> string" where
  "digits n = (if n < 10 then [digit n] else digits (n div 10) @ [digit (n mod 10)])"

declare digits.simps [simp del]

text \<open>\<open>fmt.Sprintf("%d", n)\<close>: the decimal numeral of an integer.\<close>

definition Sprintf_d :: "int \<Rightarrow> string" where
  "Sprintf_d n = (if n < 0 then ''-'' @ digits (nat (- n)) else digits (nat n))"

definition round_half_even :: "rat \<Rightarrow> int" where
  "round_half_even x =
     (let f = \<lfloor>x\<rfloor>; d = x - of_int f
      in if d < 1 / 2 then f else if 1 / 2 < d then f + 1 else if even f then f else f + 1)"

text \<open>
  \<open>fmt.Sprintf("%f", x)\<close>: sign, integer part, a point and six decimals, the value
  rounded to the nearest millionth (ties to even).
\<close>

definition Sprintf_f :: "rat \<Rightarrow> string" where
  "Sprintf_f x =
     (let m = nat (round_half_even (\<bar>x\<bar> * 1000000))
      in (if x < 0 then ''-'' else '''') @ digits (m div 1000000) @ ''.''
         @ map (\<lambda>i. digit (m div 10 ^ i)) [5, 4, 3, 2, 1, 0])"

subsection \<open>Floating point\<close>

text \<open>
  \<open>float64 x\<close> is the result of a \<open>float64\<close> operation whose exact result is
  \<open>x\<close>: the nearest number with a significand of 53 bits, the one with the even
  significand where two are equally near. \<open>ilog2 x\<close> is the binary exponent of a
  positive \<open>x\<close>, and \<open>bits n\<close> the number of binary digits of \<open>n\<close>. The limits of
  the exponent (overflow, subnormal numbers) are not modelled.
\<close>

fun bits :: "nat \<Rightarrow> nat" where
  "bits n = (if n = 0 then 0 else Suc (bits (n div 2)))"

declare bits.simps [simp del]

definition ilog2 :: "rat \<Rightarrow> int" where
  "ilog2 x =
     (if 1 \<le> x then int (bits (nat \<lfloor>x\<rfloor>)) - 1 else - int (bits (nat (\<lceil>1 / x\<rceil> - 1))))"

definition float64 :: "rat \<Rightarrow> rat" where
  "float64 x =
     (if x = 0 then 0
      else (let ulp = 2 powi (ilog2 \<bar>x\<bar> - 52)
            in of_int (round_half_even (x / ulp)) * ulp))"

subsection \<open>Data model\<close>

type_synonym int64 = "64 word"

type_synonym addr = nat

record User =
  ID :: int64
  Name :: string

record Article =
  ID :: string
  UserID :: int64
  Title :: string
  Slug :: string

record Device =
  IP :: string
  SSID :: string
  PassPhrase :: string
  CurrentTime :: string

record Temp =
  CurrentTemp :: string
  NightTemp :: string
  DayTemp :: string
  Thereshold :: string

record Times =
  Day :: string
  Night :: string

text \<open>A \<open>[2]string\<close> is a pair: index 0 is the first component, index 1 the second.\<close>

record Modes =
  Mode :: "string \<times> string"
  Heating :: "string \<times> string"

record ModesIn =
  Mode :: string
  Heating :: string

record UserPayload =
  User :: "User option"
  Role :: string

text \<open>
  \<open>ArticleRequest\<close> embeds \<open>*Article\<close>: the field holds the address of an article, or
  nothing for the nil pointer.
\<close>

record ArticleRequest =
  Article :: "addr option"
  User :: "UserPayload option"
  ProtectedID :: string

text \<open>
  \<open>ArticleResponse\<close> as it is marshalled: the article its pointer refers to at that
  moment, the user payload and the elapsed field.
\<close>

record ArticleResponse =
  Article :: Article
  User :: "UserPayload option"
  Elapsed :: int

datatype error =
    io_EOF
  | io_ErrUnexpectedEOF
  | json_SyntaxError
  | json_UnmarshalTypeError
  | errors_New string

text \<open>
  The errors a binding returns: \<open>io.EOF\<close> and \<open>io.ErrUnexpectedEOF\<close>, a
  \<open>*json.SyntaxError\<close>, a \<open>*json.UnmarshalTypeError\<close>, and an error made with
  \<open>errors.New\<close>. \<open>ErrorText\<close> holds the error whose text \<open>err.Error()\<close> the field
  carries.
\<close>

record ErrResponse =
  Err :: "error option"
  HTTPStatusCode :: int
  StatusText :: string
  AppCode :: int
  ErrorText :: "error option"

subsection \<open>The package-level variables\<close>

text \<open>
  \<open>heap\<close> is the store the article pointers point into; \<open>articles\<close> and the
  \<open>article\<close> value of a request context hold addresses of it. The users are never
  assigned after initialisation and are kept by value.
\<close>

record state =
  IP :: string
  SSID :: string
  PassPhrase :: string
  CurrentTime :: string
  CurrentTemp :: string
  NightTemp :: string
  DayTemp :: string
  Thereshold :: string
  Day :: string
  Night :: string
  CurrentStateOfMode :: string
  CurrentStateOfHeating :: string
  Mode :: "string \<times> string"
  Heating :: "string \<times> string"
  heap :: "addr \<Rightarrow> Article"
  articles :: "addr list"
  users :: "User list"

definition fixture_heap :: "addr \<Rightarrow> Article" where
  "fixture_heap a =
     (if a = 0 then \<lparr>Article.ID = ''1'', UserID = 100, Title = ''Hi'', Slug = ''hi''\<rparr>
      else if a = 1 then \<lparr>Article.ID = ''2'', UserID = 200, Title = ''sup'', Slug = ''sup''\<rparr>
      else if a = 2 then \<lparr>Article.ID = ''3'', UserID = 300, Title = ''alo'', Slug = ''alo''\<rparr>
      else if a = 3 then
        \<lparr>Article.ID = ''4'', UserID = 400, Title = ''bonjour'', Slug = ''bonjour''\<rparr>
      else if a = 4 then
        \<lparr>Article.ID = ''5'', UserID = 500, Title = ''whats up'', Slug = ''whats-up''\<rparr>
      else \<lparr>Article.ID = '''', UserID = 0, Title = '''', Slug = ''''\<rparr>)"

text \<open>
  The variables as initialised; \<open>now\<close> is the formatted time of the process start that
  \<open>CurrentTime\<close> is initialised with.
\<close>

definition init :: "string \<Rightarrow> state" where
  "init now =
     \<lparr>state.IP = ''192.168.1.123'', SSID = ''MrWhite'', PassPhrase = ''F'',
      CurrentTime = now, CurrentTemp = ''22.00'', NightTemp = ''18.00'', DayTemp = ''24.00'',
      Thereshold = ''0.20'', Day = ''06:00'', Night = ''22:00'',
      CurrentStateOfMode = ''night'', CurrentStateOfHeating = ''off'',
      Mode = (''night'', ''auto''), Heating = (''off'', ''auto''),
      heap = fixture_heap, articles = [0, 1, 2, 3, 4],
      users = [\<lparr>User.ID = 100, Name = ''Peter''\<rparr>, \<lparr>User.ID = 200, Name = ''Julia''\<rparr>]\<rparr>"

subsection \<open>Requests, contexts and responses\<close>

text \<open>
  The body of a request as the decoder of \<open>encoding/json\<close> reads it: \<open>Blank\<close> is a
  body of no bytes or of white space only, \<open>Truncated\<close> a body that ends inside its first
  JSON value, \<open>Malformed\<close> a body with a byte that cannot continue its first JSON value,
  and \<open>Json v\<close> a body whose first JSON value is \<open>v\<close>; what follows the first value is not
  read. A number written as an integer literal is \<open>JInt\<close>; any other number literal (with
  a fraction or an exponent) is \<open>JFrac\<close>. \<open>JStr\<close> and the keys of \<open>JObj\<close> hold the
  strings as the decoder unquotes them.
\<close>

datatype json =
    JNull
  | JBool bool
  | JInt int
  | JFrac
  | JStr string
  | JArr "json list"
  | JObj "(string \<times> json) list"

datatype reqbody = Blank | Truncated | Malformed | Json json

text \<open>The values a request context holds under a string key.\<close>

datatype ctxval = CBool bool | CInt int | CString string | CArticle addr

text \<open>
  The routes \<open>main\<close> and \<open>adminRouter\<close> register. Matching a request line against
  the patterns is the router library's work: a request comes with the route it was matched
  to. The router of \<open>/rest/v1/{articleID}\<close> and the admin router run their middleware
  before they look for one of their own routes, so these two carry what that later lookup
  finds, which may be nothing.
\<close>

datatype article_route =
  ArticleGet | ArticlePut | ArticleDelete | ArticleNotFound | ArticleMethodNotAllowed

datatype admin_route =
  AdminIndex | AdminAccounts | AdminUsers string | AdminNotFound | AdminMethodNotAllowed

datatype route =
    GET_root
  | GET_ping
  | GET_panic
  | GET_articles
  | POST_articles
  | GET_device
  | GET_time
  | PUT_time
  | GET_temp
  | PUT_temp
  | GET_mode
  | PUT_mode
  | ArticleID string article_route
  | GET_articleSlug string
  | Admin admin_route
  | NotFound
  | MethodNotAllowed

text \<open>
  A request, with what the environment supplies while it is served: \<open>rand_Intn\<close> is
  the value \<open>rand.Intn(100)\<close> returns and \<open>rand_Float64\<close> the value
  \<open>rand.Float64()\<close> returns when the handler draws one. \<open>URLParams\<close> are the
  parameters the router binds from the matched pattern.
\<close>

record request =
  route :: route
  URLParams :: "(string \<times> string) list"
  ctx :: "string \<Rightarrow> ctxval option"
  body :: reqbody
  rand_Intn :: int
  rand_Float64 :: rat

datatype payload =
    Empty
  | Text string
  | JDevice Device
  | JTemp Temp
  | JTimes Times
  | JModes Modes
  | JArticle ArticleResponse
  | JArticles "ArticleResponse list"
  | JErr ErrResponse

record response =
  status :: int
  payload :: payload

type_synonym handler = "request \<Rightarrow> state \<Rightarrow> response \<times> state"

definition URLParam :: "request \<Rightarrow> string \<Rightarrow> string" where
  "URLParam r key = (case map_of (URLParams r) key of None \<Rightarrow> '''' | Some v \<Rightarrow> v)"

text \<open>A response written with \<open>w.Write\<close> and no status set is a 200.\<close>

definition write_text :: "string \<Rightarrow> response" where
  "write_text s = \<lparr>status = 200, payload = Text s\<rparr>"

text \<open>
  A panic ends the handler; the \<open>Recoverer\<close> middleware of \<open>main\<close> answers with
  status 500 and no body.
\<close>

definition panicked :: response where
  "panicked = \<lparr>status = 500, payload = Empty\<rparr>"

subsection \<open>Error payloads\<close>

definition ErrInvalidRequest :: "error \<Rightarrow> ErrResponse" where
  "ErrInvalidRequest err =
     \<lparr>Err = Some err, HTTPStatusCode = 400, StatusText = ''Invalid request.'', AppCode = 0,
      ErrorText = Some err\<rparr>"

definition ErrRender :: "error \<Rightarrow> ErrResponse" where
  "ErrRender err =
     \<lparr>Err = Some err, HTTPStatusCode = 422, StatusText = ''Error rendering response.'',
      AppCode = 0, ErrorText = Some err\<rparr>"

definition ErrNotFound :: ErrResponse where
  "ErrNotFound =
     \<lparr>Err = None, HTTPStatusCode = 404, StatusText = ''Resource not found.'', AppCode = 0,
      ErrorText = None\<rparr>"

text \<open>
  \<open>render.Render\<close> of an \<open>ErrResponse\<close>: its \<open>Render\<close> method sets the status of
  the response to \<open>HTTPStatusCode\<close>, and the payload is marshalled. No payload type of
  the program is an \<open>error\<close>, so the \<open>render.Respond\<close> set in \<open>init\<close> always hands
  the value to the default responder. No \<open>Render\<close> method returns an error: the
  \<open>ErrRender\<close> branches of the handlers are not reached.
\<close>

definition render_ErrResponse :: "ErrResponse \<Rightarrow> response" where
  "render_ErrResponse e = \<lparr>status = HTTPStatusCode e, payload = JErr e\<rparr>"

subsection \<open>Decoding a request body\<close>

text \<open>
  \<open>main\<close> sets the content type of every request to JSON, so \<open>render.Bind\<close> decodes
  every body with \<open>json.NewDecoder(r).Decode(v)\<close>, then calls \<open>v.Bind\<close>. The decoder
  first reads one whole JSON value and fails, before it stores anything, when there is
  none: with \<open>io.EOF\<close> for a blank body, \<open>io.ErrUnexpectedEOF\<close> for a truncated one and
  a \<open>*json.SyntaxError\<close> for a malformed one. It then stores the members of an object
  one after the other into the fields whose JSON names match the keys (\<open>equalFold\<close>); a
  member whose value does not fit its field is skipped, the decoding goes on and the
  decoder returns a \<open>*json.UnmarshalTypeError\<close> at the end; a \<open>null\<close> leaves a string or
  integer field as it is; a key without field is ignored.
\<close>

fun store_string :: "json \<Rightarrow> string \<Rightarrow> string \<times> bool" where
  "store_string (JStr s) old = (s, False)"
| "store_string JNull old = (old, False)"
| "store_string _ old = (old, True)"

fun store_int64 :: "json \<Rightarrow> int64 \<Rightarrow> int64 \<times> bool" where
  "store_int64 (JInt n) old =
     (if - (2 ^ 63) \<le> n \<and> n < 2 ^ 63 then (word_of_int n, False) else (old, True))"
| "store_int64 JNull old = (old, False)"
| "store_int64 _ old = (old, True)"

definition DecodeJSON ::
  "('a \<times> bool \<Rightarrow> string \<times> json \<Rightarrow> 'a \<times> bool) \<Rightarrow> reqbody \<Rightarrow> 'a \<Rightarrow> 'a \<times> error option" where
  "DecodeJSON field b v =
     (case b of
        Blank \<Rightarrow> (v, Some io_EOF)
      | Truncated \<Rightarrow> (v, Some io_ErrUnexpectedEOF)
      | Malformed \<Rightarrow> (v, Some json_SyntaxError)
      | Json JNull \<Rightarrow> (v, None)
      | Json (JObj ms) \<Rightarrow>
          (let res = foldl field (v, False) ms
           in (fst res, if snd res then Some json_UnmarshalTypeError else None))
      | Json _ \<Rightarrow> (v, Some json_UnmarshalTypeError))"

definition Times_field :: "Times \<times> bool \<Rightarrow> string \<times> json \<Rightarrow> Times \<times> bool" where
  "Times_field acc m =
     (let t = fst acc; k = fst m
      in if equalFold ''day'' k then
           (let res = store_string (snd m) (Times.Day t)
            in (t\<lparr>Times.Day := fst res\<rparr>, snd acc \<or> snd res))
         else if equalFold ''night'' k then
           (let res = store_string (snd m) (Times.Night t)
            in (t\<lparr>Times.Night := fst res\<rparr>, snd acc \<or> snd res))
         else acc)"

definition Temp_field :: "Temp \<times> bool \<Rightarrow> string \<times> json \<Rightarrow> Temp \<times> bool" where
  "Temp_field acc m =
     (let t = fst acc; k = fst m
      in if equalFold ''currenttemp'' k then
           (let res = store_string (snd m) (Temp.CurrentTemp t)
            in (t\<lparr>Temp.CurrentTemp := fst res\<rparr>, snd acc \<or> snd res))
         else if equalFold ''nighttemp'' k then
           (let res = store_string (snd m) (Temp.NightTemp t)
            in (t\<lparr>Temp.NightTemp := fst res\<rparr>, snd acc \<or> snd res))
         else if equalFold ''daytemp'' k then
           (let res = store_string (snd m) (Temp.DayTemp t)
            in (t\<lparr>Temp.DayTemp := fst res\<rparr>, snd acc \<or> snd res))
         else if equalFold ''thereshold'' k then
           (let res = store_string (snd m) (Temp.Thereshold t)
            in (t\<lparr>Temp.Thereshold := fst res\<rparr>, snd acc \<or> snd res))
         else acc)"

text \<open>The JSON name of \<open>ModesIn.Heating\<close> is \<open>heting\<close>, as its tag spells it.\<close>

definition ModesIn_field :: "ModesIn \<times> bool \<Rightarrow> string \<times> json \<Rightarrow> ModesIn \<times> bool" where
  "ModesIn_field acc m =
     (let t = fst acc; k = fst m
      in if equalFold ''mode'' k then
           (let res = store_string (snd m) (ModesIn.Mode t)
            in (t\<lparr>ModesIn.Mode := fst res\<rparr>, snd acc \<or> snd res))
         else if equalFold ''heting'' k then
           (let res = store_string (snd m) (ModesIn.Heating t)
            in (t\<lparr>ModesIn.Heating := fst res\<rparr>, snd acc \<or> snd res))
         else acc)"

text \<open>
  \<open>UserPayload\<close> embeds \<open>*User\<close>: the keys \<open>id\<close> and \<open>name\<close> go to the embedded
  user, which the decoder allocates when the pointer is nil.
\<close>

definition User_zero :: User where
  "User_zero = \<lparr>User.ID = 0, Name = ''''\<rparr>"

definition UserPayload_zero :: UserPayload where
  "UserPayload_zero = \<lparr>UserPayload.User = None, Role = ''''\<rparr>"

definition Article_zero :: Article where
  "Article_zero = \<lparr>Article.ID = '''', UserID = 0, Title = '''', Slug = ''''\<rparr>"

definition UserPayload_field ::
  "UserPayload \<times> bool \<Rightarrow> string \<times> json \<Rightarrow> UserPayload \<times> bool" where
  "UserPayload_field acc m =
     (let p = fst acc; k = fst m;
          u = (case UserPayload.User p of None \<Rightarrow> User_zero | Some u \<Rightarrow> u)
      in if equalFold ''role'' k then
           (let res = store_string (snd m) (Role p)
            in (p\<lparr>Role := fst res\<rparr>, snd acc \<or> snd res))
         else if equalFold ''id'' k then
           (let res = store_int64 (snd m) (User.ID u)
            in (p\<lparr>UserPayload.User := Some (u\<lparr>User.ID := fst res\<rparr>)\<rparr>, snd acc \<or> snd res))
         else if equalFold ''name'' k then
           (let res = store_string (snd m) (Name u)
            in (p\<lparr>UserPayload.User := Some (u\<lparr>Name := fst res\<rparr>)\<rparr>, snd acc \<or> snd res))
         else acc)"

text \<open>
  A value for a field of type \<open>*UserPayload\<close>: \<open>null\<close> sets the pointer to nil; for
  any other value the decoder allocates the payload when the pointer is nil, and only an
  object fits it.
\<close>

definition store_UserPayload :: "json \<Rightarrow> UserPayload option \<Rightarrow> UserPayload option \<times> bool" where
  "store_UserPayload v old =
     (let p = (case old of None \<Rightarrow> UserPayload_zero | Some p \<Rightarrow> p)
      in case v of
           JNull \<Rightarrow> (None, False)
         | JObj ms \<Rightarrow> (let res = foldl UserPayload_field (p, False) ms in (Some (fst res), snd res))
         | _ \<Rightarrow> (Some p, True))"

text \<open>
  \<open>ArticleRequest\<close> has the fields \<open>User\<close> (JSON name \<open>user\<close>) and \<open>ProtectedID\<close>
  (JSON name \<open>id\<close>) and embeds \<open>*Article\<close>, whose fields have the JSON names
  \<open>id\<close>, \<open>user_id\<close>, \<open>title\<close> and \<open>slug\<close>. Of two fields with one JSON name the
  decoder takes the less nested one: the key \<open>id\<close> goes to \<open>ProtectedID\<close>. For a key
  of the embedded article the decoder allocates the article when the pointer is nil
  (\<open>fresh\<close> is the address of the new article) and stores through the pointer, into the
  heap.
\<close>

definition ArticleRequest_field ::
  "addr \<Rightarrow> ((addr \<Rightarrow> Article) \<times> ArticleRequest) \<times> bool \<Rightarrow> string \<times> json
     \<Rightarrow> ((addr \<Rightarrow> Article) \<times> ArticleRequest) \<times> bool" where
  "ArticleRequest_field fresh acc m =
     (let h = fst (fst acc); a = snd (fst acc); k = fst m
      in if equalFold ''id'' k then
           (let res = store_string (snd m) (ProtectedID a)
            in ((h, a\<lparr>ProtectedID := fst res\<rparr>), snd acc \<or> snd res))
         else if equalFold ''user'' k then
           (let res = store_UserPayload (snd m) (ArticleRequest.User a)
            in ((h, a\<lparr>ArticleRequest.User := fst res\<rparr>), snd acc \<or> snd res))
         else if equalFold ''user_id'' k \<or> equalFold ''title'' k \<or> equalFold ''slug'' k then
           (let p = (case ArticleRequest.Article a of None \<Rightarrow> fresh | Some p \<Rightarrow> p);
                h0 = (case ArticleRequest.Article a of None \<Rightarrow> h(fresh := Article_zero) | Some p \<Rightarrow> h);
                a0 = a\<lparr>ArticleRequest.Article := Some p\<rparr>
            in if equalFold ''user_id'' k then
                 (let res = store_int64 (snd m) (UserID (h0 p))
                  in ((h0(p := (h0 p)\<lparr>UserID := fst res\<rparr>), a0), snd acc \<or> snd res))
               else if equalFold ''title'' k then
                 (let res = store_string (snd m) (Title (h0 p))
                  in ((h0(p := (h0 p)\<lparr>Title := fst res\<rparr>), a0), snd acc \<or> snd res))
               else
                 (let res = store_string (snd m) (Slug (h0 p))
                  in ((h0(p := (h0 p)\<lparr>Slug := fst res\<rparr>), a0), snd acc \<or> snd res)))
         else acc)"

subsection \<open>Binding\<close>

text \<open>
  The \<open>Bind\<close> methods of \<open>Times\<close>, \<open>Temp\<close> and \<open>ModesIn\<close> return an error for a
  nil receiver. Their receiver is always the address of the struct the handler has just
  made, so the methods take the struct.
\<close>

definition Times_Bind :: "Times \<Rightarrow> Times \<times> error option" where
  "Times_Bind a = (a\<lparr>Times.Day := ToLower (Times.Day a)\<rparr>, None)"

definition Temp_Bind :: "Temp \<Rightarrow> Temp \<times> error option" where
  "Temp_Bind a = (a, None)"

definition ModesIn_Bind :: "ModesIn \<Rightarrow> ModesIn \<times> error option" where
  "ModesIn_Bind a = (a, None)"

definition ArticleRequest_Bind ::
  "(addr \<Rightarrow> Article) \<times> ArticleRequest \<Rightarrow> ((addr \<Rightarrow> Article) \<times> ArticleRequest) \<times> error option" where
  "ArticleRequest_Bind ha =
     (let h = fst ha; a = snd ha
      in case ArticleRequest.Article a of
           None \<Rightarrow> (ha, Some (errors_New ''missing required Article fields''))
         | Some p \<Rightarrow>
             ((h(p := (h p)\<lparr>Title := ToLower (Title (h p))\<rparr>), a\<lparr>ProtectedID := ''''\<rparr>), None))"

text \<open>
  \<open>render.Bind\<close>: decode, and when that gave no error call \<open>Bind\<close>. (Before that it
  calls \<open>Bind\<close> on the fields that have one and are not nil; the only such field is the
  \<open>User\<close> of an \<open>ArticleRequest\<close>, whose \<open>Bind\<close> does nothing and returns no
  error.)
\<close>

definition render_Bind ::
  "('a \<times> bool \<Rightarrow> string \<times> json \<Rightarrow> 'a \<times> bool) \<Rightarrow> ('a \<Rightarrow> 'a \<times> error option) \<Rightarrow> reqbody \<Rightarrow> 'a
     \<Rightarrow> 'a \<times> error option" where
  "render_Bind field bind b v =
     (let res = DecodeJSON field b v
      in case snd res of Some err \<Rightarrow> res | None \<Rightarrow> bind (fst res))"

subsection \<open>Device, temperature, time and mode\<close>

definition dbGetDevice :: "state \<Rightarrow> Device" where
  "dbGetDevice st =
     \<lparr>Device.IP = state.IP st, SSID = state.SSID st, PassPhrase = state.PassPhrase st,
      CurrentTime = state.CurrentTime st\<rparr>"

definition GetDevice :: handler where
  "GetDevice r st = (\<lparr>status = 200, payload = JDevice (dbGetDevice st)\<rparr>, st)"

definition min_temp :: rat where
  "min_temp = - 10"

definition max_temp :: rat where
  "max_temp = 40"

text \<open>
  \<open>dbGetTemp\<close>; \<open>u\<close> is the value \<open>rand.Float64()\<close> returns. The constant
  \<open>max - min\<close> is exact; the product and the sum are \<open>float64\<close> operations.
\<close>

definition dbGetTemp :: "rat \<Rightarrow> state \<Rightarrow> Temp" where
  "dbGetTemp u st =
     \<lparr>Temp.CurrentTemp = Sprintf_f (float64 (min_temp + float64 (u * (max_temp - min_temp)))),
      NightTemp = state.NightTemp st, DayTemp = state.DayTemp st,
      Thereshold = state.Thereshold st\<rparr>"

definition GetTemp :: handler where
  "GetTemp r st = (\<lparr>status = 200, payload = JTemp (dbGetTemp (rand_Float64 r) st)\<rparr>, st)"

definition dbGetTime :: "state \<Rightarrow> Times" where
  "dbGetTime st = \<lparr>Times.Day = state.Day st, Night = state.Night st\<rparr>"

definition GetTime :: handler where
  "GetTime r st = (\<lparr>status = 200, payload = JTimes (dbGetTime st)\<rparr>, st)"

definition dbGetMode :: "state \<Rightarrow> Modes" where
  "dbGetMode st = \<lparr>Modes.Mode = state.Mode st, Heating = state.Heating st\<rparr>"

definition GetMode :: handler where
  "GetMode r st = (\<lparr>status = 200, payload = JModes (dbGetMode st)\<rparr>, st)"

definition dbUpdateTime :: "Times \<Rightarrow> state \<Rightarrow> state" where
  "dbUpdateTime time st = st\<lparr>state.Day := Times.Day time, state.Night := Times.Night time\<rparr>"

definition UpdateTime :: handler where
  "UpdateTime r st =
     (let data = \<lparr>Times.Day = '''', Night = ''''\<rparr>;
          res = render_Bind Times_field Times_Bind (body r) data
      in case snd res of
           Some err \<Rightarrow> (render_ErrResponse (ErrInvalidRequest err), st)
         | None \<Rightarrow>
             (let st' = dbUpdateTime (fst res) st
              in (\<lparr>status = 200, payload = JTimes (dbGetTime st')\<rparr>, st')))"

definition dbUpdateTemp :: "Temp \<Rightarrow> state \<Rightarrow> state" where
  "dbUpdateTemp temp st =
     st\<lparr>state.DayTemp := Temp.DayTemp temp, state.NightTemp := Temp.NightTemp temp,
        state.Thereshold := Temp.Thereshold temp\<rparr>"

definition UpdateTemp :: handler where
  "UpdateTemp r st =
     (let data = \<lparr>Temp.CurrentTemp = '''', NightTemp = '''', DayTemp = '''', Thereshold = ''''\<rparr>;
          res = render_Bind Temp_field Temp_Bind (body r) data
      in case snd res of
           Some err \<Rightarrow> (render_ErrResponse (ErrInvalidRequest err), st)
         | None \<Rightarrow>
             (let st' = dbUpdateTemp (fst res) st
              in (\<lparr>status = 200, payload = JTemp (dbGetTemp (rand_Float64 r) st')\<rparr>, st')))"

definition dbUpdateMode :: "ModesIn \<Rightarrow> state \<Rightarrow> state" where
  "dbUpdateMode mode st =
     (let st1 = st\<lparr>state.Heating := (fst (state.Heating st), ModesIn.Heating mode)\<rparr>;
          st2 = st1\<lparr>state.Heating := (CurrentStateOfHeating st1, snd (state.Heating st1))\<rparr>;
          st3 = st2\<lparr>state.Mode := (fst (state.Mode st2), ModesIn.Mode mode)\<rparr>
      in st3\<lparr>state.Mode := (CurrentStateOfMode st3, snd (state.Mode st3))\<rparr>)"

definition UpdateMode :: handler where
  "UpdateMode r st =
     (let data = \<lparr>ModesIn.Mode = '''', Heating = ''''\<rparr>;
          res = render_Bind ModesIn_field ModesIn_Bind (body r) data
      in case snd res of
           Some err \<Rightarrow> (render_ErrResponse (ErrInvalidRequest err), st)
         | None \<Rightarrow>
             (let st' = dbUpdateMode (fst res) st
              in (\<lparr>status = 200, payload = JModes (dbGetMode st')\<rparr>, st')))"

subsection \<open>Articles and users\<close>

text \<open>The index at which a \<open>range\<close> loop over a slice first finds an element.\<close>

primrec first_index :: "('a \<Rightarrow> bool) \<Rightarrow> 'a list \<Rightarrow> nat option" where
  "first_index P [] = None"
| "first_index P (x # xs) = (if P x then Some 0 else map_option Suc (first_index P xs))"

definition article_not_found :: error where
  "article_not_found = errors_New ''article not found''"

text \<open>
  The address the allocator gives a new article: one that no pointer of the articles
  slice holds.
\<close>

definition fresh :: "state \<Rightarrow> addr" where
  "fresh st = Suc (foldr max (articles st) 0)"

definition dbNewArticle :: "int \<Rightarrow> addr \<Rightarrow> state \<Rightarrow> (string \<times> error option) \<times> state" where
  "dbNewArticle n article st =
     (let st1 = st\<lparr>heap := (heap st)(article := (heap st article)\<lparr>Article.ID := Sprintf_d (n + 10)\<rparr>)\<rparr>;
          st2 = st1\<lparr>articles := articles st1 @ [article]\<rparr>
      in ((Article.ID (heap st2 article), None), st2))"

definition dbGetArticle :: "string \<Rightarrow> state \<Rightarrow> error + addr" where
  "dbGetArticle id' st =
     (case find (\<lambda>a. Article.ID (heap st a) = id') (articles st) of
        Some a \<Rightarrow> Inr a
      | None \<Rightarrow> Inl article_not_found)"

definition dbGetArticleBySlug :: "string \<Rightarrow> state \<Rightarrow> error + addr" where
  "dbGetArticleBySlug slug st =
     (case find (\<lambda>a. Slug (heap st a) = slug) (articles st) of
        Some a \<Rightarrow> Inr a
      | None \<Rightarrow> Inl article_not_found)"

definition dbUpdateArticle :: "string \<Rightarrow> addr \<Rightarrow> state \<Rightarrow> (error + addr) \<times> state" where
  "dbUpdateArticle id' article st =
     (case first_index (\<lambda>a. Article.ID (heap st a) = id') (articles st) of
        Some i \<Rightarrow> (Inr article, st\<lparr>articles := (articles st)[i := article]\<rparr>)
      | None \<Rightarrow> (Inl article_not_found, st))"

definition dbRemoveArticle :: "string \<Rightarrow> state \<Rightarrow> (error + addr) \<times> state" where
  "dbRemoveArticle id' st =
     (case first_index (\<lambda>a. Article.ID (heap st a) = id') (articles st) of
        Some i \<Rightarrow>
          (Inr (articles st ! i),
           st\<lparr>articles := take i (articles st) @ drop (i + 1) (articles st)\<rparr>)
      | None \<Rightarrow> (Inl article_not_found, st))"

definition dbGetUser :: "int64 \<Rightarrow> state \<Rightarrow> User option" where
  "dbGetUser id' st = find (\<lambda>u. User.ID u = id') (users st)"

definition NewUserPayloadResponse :: "User \<Rightarrow> UserPayload" where
  "NewUserPayloadResponse user = \<lparr>UserPayload.User = Some user, Role = ''''\<rparr>"

definition NewArticleResponse :: "addr \<Rightarrow> state \<Rightarrow> ArticleResponse" where
  "NewArticleResponse article st =
     \<lparr>ArticleResponse.Article = heap st article,
      User = map_option NewUserPayloadResponse (dbGetUser (UserID (heap st article)) st),
      Elapsed = 0\<rparr>"

text \<open>
  The \<open>Render\<close> methods that \<open>render.Render\<close> runs on an \<open>ArticleResponse\<close>: its
  own, then the one of its user payload.
\<close>

definition UserPayload_Render :: "UserPayload \<Rightarrow> UserPayload" where
  "UserPayload_Render u = u\<lparr>Role := ''collaborator''\<rparr>"

definition ArticleResponse_Render :: "ArticleResponse \<Rightarrow> ArticleResponse" where
  "ArticleResponse_Render rd =
     rd\<lparr>Elapsed := 10, ArticleResponse.User := map_option UserPayload_Render (ArticleResponse.User rd)\<rparr>"

definition render_Article :: "addr \<Rightarrow> state \<Rightarrow> ArticleResponse" where
  "render_Article article st = ArticleResponse_Render (NewArticleResponse article st)"

definition ListArticles :: handler where
  "ListArticles r st =
     (\<lparr>status = 200, payload = JArticles (map (\<lambda>a. render_Article a st) (articles st))\<rparr>, st)"

definition ArticleRequest_empty :: ArticleRequest where
  "ArticleRequest_empty =
     \<lparr>ArticleRequest.Article = None, User = None, ProtectedID = ''''\<rparr>"

definition CreateArticle :: handler where
  "CreateArticle r st =
     (let data = ArticleRequest_empty;
          res = render_Bind (ArticleRequest_field (fresh st)) ArticleRequest_Bind (body r)
                  (heap st, data);
          st1 = st\<lparr>heap := fst (fst res)\<rparr>
      in case snd res of
           Some err \<Rightarrow> (render_ErrResponse (ErrInvalidRequest err), st1)
         | None \<Rightarrow>
             (case ArticleRequest.Article (snd (fst res)) of
                None \<Rightarrow> (panicked, st1)
              | Some article \<Rightarrow>
                  (let st2 = snd (dbNewArticle (rand_Intn r) article st1)
                   in (\<lparr>status = 201, payload = JArticle (render_Article article st2)\<rparr>, st2))))"

text \<open>
  The handlers below the \<open>ArticleCtx\<close> middleware take the article from the request
  context and panic when it is not there.
\<close>

definition GetArticle :: handler where
  "GetArticle r st =
     (case ctx r ''article'' of
        Some (CArticle article) \<Rightarrow> (\<lparr>status = 200, payload = JArticle (render_Article article st)\<rparr>, st)
      | _ \<Rightarrow> (panicked, st))"

definition UpdateArticle :: handler where
  "UpdateArticle r st =
     (case ctx r ''article'' of
        Some (CArticle article) \<Rightarrow>
          (let data = ArticleRequest_empty\<lparr>ArticleRequest.Article := Some article\<rparr>;
               res = render_Bind (ArticleRequest_field (fresh st)) ArticleRequest_Bind (body r)
                       (heap st, data);
               st1 = st\<lparr>heap := fst (fst res)\<rparr>
           in case snd res of
                Some err \<Rightarrow> (render_ErrResponse (ErrInvalidRequest err), st1)
              | None \<Rightarrow>
                  (case ArticleRequest.Article (snd (fst res)) of
                     None \<Rightarrow> (panicked, st1)
                   | Some article' \<Rightarrow>
                       (let st2 = snd (dbUpdateArticle (Article.ID (heap st1 article')) article' st1)
                        in (\<lparr>status = 200, payload = JArticle (render_Article article' st2)\<rparr>, st2))))
      | _ \<Rightarrow> (panicked, st))"

definition DeleteArticle :: handler where
  "DeleteArticle r st =
     (case ctx r ''article'' of
        Some (CArticle article) \<Rightarrow>
          (let res = dbRemoveArticle (Article.ID (heap st article)) st
           in case fst res of
                Inl err \<Rightarrow> (render_ErrResponse (ErrInvalidRequest err), snd res)
              | Inr article' \<Rightarrow>
                  (\<lparr>status = 200, payload = JArticle (render_Article article' (snd res))\<rparr>, snd res))
      | _ \<Rightarrow> (panicked, st))"

subsection \<open>Middleware\<close>

definition ArticleCtx :: "handler \<Rightarrow> handler" where
  "ArticleCtx next r st =
     (let articleID = URLParam r ''articleID''; articleSlug = URLParam r ''articleSlug'';
          found =
            (if articleID \<noteq> '''' then Some (dbGetArticle articleID st)
             else if articleSlug \<noteq> '''' then Some (dbGetArticleBySlug articleSlug st)
             else None)
      in case found of
           None \<Rightarrow> (render_ErrResponse ErrNotFound, st)
         | Some (Inl err) \<Rightarrow> (render_ErrResponse ErrNotFound, st)
         | Some (Inr article) \<Rightarrow> next (r\<lparr>ctx := (ctx r)(''article'' \<mapsto> CArticle article)\<rparr>) st)"

text \<open>\<open>http.Error\<close> writes the text followed by a newline.\<close>

definition forbidden :: response where
  "forbidden = \<lparr>status = 403, payload = Text (''Forbidden'' @ [CHR 0x0A])\<rparr>"

definition AdminOnly :: "handler \<Rightarrow> handler" where
  "AdminOnly next r st =
     (let res = (case ctx r ''acl.admin'' of Some (CBool b) \<Rightarrow> (b, True) | _ \<Rightarrow> (False, False));
          isAdmin = fst res; ok = snd res
      in if \<not> ok \<or> \<not> isAdmin then (forbidden, st) else next r st)"

definition paginate :: "handler \<Rightarrow> handler" where
  "paginate next r st = next r st"

subsection \<open>Routers\<close>

text \<open>The answers of the router library where no route or no method matches.\<close>

definition not_found :: response where
  "not_found = \<lparr>status = 404, payload = Text (''404 page not found'' @ [CHR 0x0A])\<rparr>"

definition method_not_allowed :: response where
  "method_not_allowed = \<lparr>status = 405, payload = Empty\<rparr>"

definition admin_routes :: "admin_route \<Rightarrow> handler" where
  "admin_routes t r st =
     (case t of
        AdminIndex \<Rightarrow> (write_text ''admin: index'', st)
      | AdminAccounts \<Rightarrow> (write_text ''admin: list accounts..'', st)
      | AdminUsers userId \<Rightarrow> (write_text (''admin: view user id '' @ userId), st)
      | AdminNotFound \<Rightarrow> (not_found, st)
      | AdminMethodNotAllowed \<Rightarrow> (method_not_allowed, st))"

definition adminRouter :: "admin_route \<Rightarrow> handler" where
  "adminRouter t = AdminOnly (admin_routes t)"

definition article_routes :: "article_route \<Rightarrow> handler" where
  "article_routes t r st =
     (case t of
        ArticleGet \<Rightarrow> GetArticle r st
      | ArticlePut \<Rightarrow> UpdateArticle r st
      | ArticleDelete \<Rightarrow> DeleteArticle r st
      | ArticleNotFound \<Rightarrow> (not_found, st)
      | ArticleMethodNotAllowed \<Rightarrow> (method_not_allowed, st))"

text \<open>The router \<open>main\<close> builds, applied to a request.\<close>

definition serve :: handler where
  "serve r st =
     (case route r of
        GET_root \<Rightarrow> (write_text ''root.'', st)
      | GET_ping \<Rightarrow> (write_text ''pong'', st)
      | GET_panic \<Rightarrow> (panicked, st)
      | GET_articles \<Rightarrow> paginate ListArticles r st
      | POST_articles \<Rightarrow> CreateArticle r st
      | GET_device \<Rightarrow> GetDevice r st
      | GET_time \<Rightarrow> GetTime r st
      | PUT_time \<Rightarrow> UpdateTime r st
      | GET_temp \<Rightarrow> GetTemp r st
      | PUT_temp \<Rightarrow> UpdateTemp r st
      | GET_mode \<Rightarrow> GetMode r st
      | PUT_mode \<Rightarrow> UpdateMode r st
      | ArticleID articleID t \<Rightarrow>
          ArticleCtx (article_routes t) (r\<lparr>URLParams := [(''articleID'', articleID)]\<rparr>) st
      | GET_articleSlug articleSlug \<Rightarrow>
          ArticleCtx GetArticle (r\<lparr>URLParams := [(''articleSlug'', articleSlug)]\<rparr>) st
      | Admin t \<Rightarrow> adminRouter t r st
      | NotFound \<Rightarrow> (not_found, st)
      | MethodNotAllowed \<Rightarrow> (method_not_allowed, st))"

text \<open>Serving requests one after the other.\<close>

fun run :: "request list \<Rightarrow> state \<Rightarrow> state" where
  "run [] st = st"
| "run (r # rs) st = run rs (snd (serve r st))"

text \<open>The pattern \<open>[a-z-]+\<close> of the slug route, anchored at both ends.\<close>

definition slug_pattern :: "string \<Rightarrow> bool" where
  "slug_pattern s = (s \<noteq> [] \<and> list_all (\<lambda>c. c \<in> set ''abcdefghijklmnopqrstuvwxyz-'') s)"

subsection \<open>Auxiliary definitions\<close>

text \<open>
  The article a decoding into an \<open>ArticleRequest\<close> writes to: the one its pointer holds,
  or the newly allocated one. \<open>decode_rel\<close> relates heap and request before a decoding
  to heap and request after it: the heap changes at that article only, a pointer that was
  set stays and the \<open>ID\<close> behind it is kept, and a nil pointer stays nil or becomes the
  new address.
\<close>

definition target :: "addr \<Rightarrow> ArticleRequest \<Rightarrow> addr" where
  "target fr a = (case ArticleRequest.Article a of None \<Rightarrow> fr | Some p \<Rightarrow> p)"

definition decode_rel ::
  "addr \<Rightarrow> (addr \<Rightarrow> Article) \<times> ArticleRequest \<Rightarrow> (addr \<Rightarrow> Article) \<times> ArticleRequest \<Rightarrow> bool" where
  "decode_rel fr x y =
     ((\<forall>q. q \<noteq> target fr (snd x) \<longrightarrow> fst y q = fst x q) \<and>
      (case ArticleRequest.Article (snd x) of
         Some p \<Rightarrow>
           ArticleRequest.Article (snd y) = Some p \<and> Article.ID (fst y p) = Article.ID (fst x p)
       | None \<Rightarrow>
           ArticleRequest.Article (snd y) = None \<and> fst y = fst x \<or>
           ArticleRequest.Article (snd y) = Some fr))"

text \<open>Two invariants of the state: the slots 0 of the modes, and the article IDs.\<close>

definition slot0 :: "state \<Rightarrow> bool" where
  "slot0 st =
     (CurrentStateOfMode st = ''night'' \<and> CurrentStateOfHeating st = ''off'' \<and>
      fst (state.Mode st) = ''night'' \<and> fst (state.Heating st) = ''off'')"

definition ids_nonempty :: "state \<Rightarrow> bool" where
  "ids_nonempty st = list_all (\<lambda>a. Article.ID (heap st a) \<noteq> '''') (articles st)"

text \<open>A request and a start time to evaluate the handlers on.\<close>

definition example_request :: request where
  "example_request =
     \<lparr>route = GET_root, URLParams = [], ctx = Map.empty, body = Malformed, rand_Intn = 87,
      rand_Float64 = 1 / 4\<rparr>"

definition example_now :: string where
  "example_now = ''2021-03-04 05:06:07''"

section \<open>Properties\<close>

subsection \<open>Lists\<close>

lemma le_foldr_max: "x \<in> set xs \<Longrightarrow> x \<le> foldr max xs (0::nat)"
  by (induction xs) (auto simp: max_def)

lemma fresh_notin: "fresh st \<notin> set (articles st)"
proof
  assume "fresh st \<in> set (articles st)"
  then have "fresh st \<le> foldr max (articles st) 0" by (rule le_foldr_max)
  then show False by (simp add: fresh_def)
qed

lemma first_index_Some_iff:
  "first_index P xs = Some i \<longleftrightarrow> i < length xs \<and> P (xs ! i) \<and> (\<forall>j<i. \<not> P (xs ! j))"
proof (induction xs arbitrary: i)
  case Nil
  show ?case by simp
next
  case (Cons x xs)
  show ?case
  proof (cases "P x")
    case True
    then show ?thesis by (cases i) auto
  next
    case False
    show ?thesis
    proof (cases i)
      case 0
      with False show ?thesis by auto
    next
      case (Suc k)
      have "(\<forall>j<Suc k. \<not> P ((x # xs) ! j)) \<longleftrightarrow> (\<forall>j<k. \<not> P (xs ! j))"
        using False by (auto simp: less_Suc_eq_0_disj)
      with False Suc Cons.IH [of k] show ?thesis by auto
    qed
  qed
qed

lemma first_index_None_iff: "first_index P xs = None \<longleftrightarrow> (\<forall>x\<in>set xs. \<not> P x)"
  by (induction xs) auto

lemma find_first_index: "find P xs = map_option (\<lambda>i. xs ! i) (first_index P xs)"
  by (induction xs) (auto simp: option.map_comp comp_def)

lemma digits_nonempty: "digits n \<noteq> []"
  by (subst digits.simps) simp

lemma Sprintf_d_nonempty: "Sprintf_d n \<noteq> ''''"
  by (simp add: Sprintf_d_def digits_nonempty)

subsection \<open>Rounding to a float64\<close>

lemma bits_bounds: "0 < n \<Longrightarrow> 2 ^ (bits n - 1) \<le> n \<and> n < 2 ^ bits n"
proof (induction n rule: bits.induct)
  case (1 n)
  show ?case
  proof (cases "n div 2 = 0")
    case True
    with "1.prems" have "n = 1" by (auto simp: div_eq_0_iff)
    then show ?thesis by (simp add: bits.simps)
  next
    case False
    then have "0 < n div 2" by simp
    with "1.IH" "1.prems" have ih: "2 ^ (bits (n div 2) - 1) \<le> n div 2" "n div 2 < 2 ^ bits (n div 2)"
      by simp_all
    have b: "bits n = Suc (bits (n div 2))"
      using "1.prems" by (subst bits.simps) simp
    have p: "0 < bits (n div 2)"
      using False by (subst bits.simps) simp
    have "2 ^ (bits n - 1) = 2 * 2 ^ (bits (n div 2) - 1)"
      using p by (simp add: b flip: power_Suc)
    also have "\<dots> \<le> 2 * (n div 2)" using ih(1) by simp
    also have "\<dots> \<le> n" by simp
    finally have 1: "2 ^ (bits n - 1) \<le> n" .
    have "n < 2 * (n div 2 + 1)" by presburger
    also have "\<dots> \<le> 2 * 2 ^ bits (n div 2)" using ih(2) by simp
    finally have 2: "n < 2 ^ bits n" by (simp add: b)
    from 1 2 show ?thesis ..
  qed
qed

lemma bits_pos: "0 < n \<Longrightarrow> 0 < bits n"
  by (subst bits.simps) simp

lemma ilog2_bounds_ge1:
  assumes "1 \<le> x"
  shows "2 powi (ilog2 x) \<le> x \<and> x < 2 powi (ilog2 x + 1)"
proof -
  let ?n = "nat \<lfloor>x\<rfloor>"
  have n: "0 < ?n" using assms by simp
  note b = bits_bounds [OF n] and p = bits_pos [OF n]
  have e: "ilog2 x = int (bits ?n - 1)"
    using assms p by (simp add: ilog2_def)
  have "(2::rat) ^ (bits ?n - 1) \<le> of_nat ?n"
    using b by (metis of_nat_le_iff of_nat_numeral of_nat_power)
  also have "\<dots> \<le> x" using assms by (simp add: floor_le_iff) 
  finally have 1: "2 powi (ilog2 x) \<le> x" by (simp add: e)
  have "x < of_int (\<lfloor>x\<rfloor> + 1)" by linarith
  also have "\<dots> = of_nat (Suc ?n)" using assms by simp
  also have "\<dots> \<le> (2::rat) ^ bits ?n"
    using b by (metis Suc_leI of_nat_le_iff of_nat_numeral of_nat_power)
  finally have 2: "x < 2 powi (ilog2 x + 1)"
    using p by (simp add: e of_nat_diff)
  from 1 2 show ?thesis ..
qed


lemma ilog2_bounds_lt1:
  assumes "0 < x" and "x < 1"
  shows "2 powi (ilog2 x) \<le> x \<and> x < 2 powi (ilog2 x + 1)"
proof -
  let ?y = "1 / x"
  let ?k = "nat (\<lceil>?y\<rceil> - 1)"
  have y: "1 < ?y" using assms by simp
  then have c: "2 \<le> \<lceil>?y\<rceil>" by linarith
  then have k: "0 < ?k" by simp
  note b = bits_bounds [OF k] and p = bits_pos [OF k]
  have e: "ilog2 x = - int (bits ?k)"
    using assms by (simp add: ilog2_def)
  have ky: "of_nat ?k < ?y" using c by (simp add: less_ceiling_iff [symmetric]) linarith
  have yk: "?y \<le> of_nat (Suc ?k)" using c by (simp add: le_of_int_ceiling) linarith
  have "?y \<le> of_nat (Suc ?k)" by (rule yk)
  also have "\<dots> \<le> (2::rat) ^ bits ?k"
    using b by (metis Suc_leI of_nat_le_iff of_nat_numeral of_nat_power)
  finally have "1 / 2 ^ bits ?k \<le> x"
    using assms(1) by (simp add: field_simps)
  then have 1: "2 powi (ilog2 x) \<le> x"
    by (simp add: e power_int_minus_divide)
  have "(2::rat) ^ (bits ?k - 1) \<le> of_nat ?k"
    using b by (metis of_nat_le_iff of_nat_numeral of_nat_power)
  also have "\<dots> < ?y" by (rule ky)
  finally have "x < 1 / 2 ^ (bits ?k - 1)"
    using assms(1) by (simp add: field_simps)
  moreover have "ilog2 x + 1 = - int (bits ?k - 1)"
    using p by (simp add: e)
  ultimately have 2: "x < 2 powi (ilog2 x + 1)"
    by (simp add: power_int_minus_divide del: of_nat_diff)
  from 1 2 show ?thesis ..
qed

lemma pow2_less_iff: "(2::rat) powi m < 2 powi n \<longleftrightarrow> m < n"
proof
  assume "(2::rat) powi m < 2 powi n"
  show "m < n"
  proof (rule ccontr)
    assume "\<not> m < n"
    then have "(2::rat) powi n \<le> 2 powi m"
      by (intro power_int_increasing) simp_all
    with \<open>(2::rat) powi m < 2 powi n\<close> show False by simp
  qed
next
  assume "m < n"
  then show "(2::rat) powi m < 2 powi n"
    by (intro power_int_strict_increasing) simp_all
qed

lemma pow2_le_iff: "(2::rat) powi m \<le> 2 powi n \<longleftrightarrow> m \<le> n"
  using pow2_less_iff [of n m] by (simp add: not_less [symmetric])

lemma pow2_pos: "0 < (2::rat) powi e"
  by (simp add: power_int_def)

lemma ilog2_bounds:
  assumes "0 < x"
  shows "2 powi (ilog2 x) \<le> x \<and> x < 2 powi (ilog2 x + 1)"
  using assms ilog2_bounds_ge1 [of x] ilog2_bounds_lt1 [of x] by (cases "1 \<le> x") simp_all

lemma ilog2_unique:
  assumes "2 powi e \<le> x" and "x < 2 powi (e + 1)"
  shows "ilog2 x = e"
proof -
  have x: "0 < x"
    by (rule less_le_trans [OF pow2_pos assms(1)])
  note b = ilog2_bounds [OF x]
  have "(2::rat) powi e < 2 powi (ilog2 x + 1)"
    using assms(1) b by linarith
  then have 1: "e < ilog2 x + 1"
    by (simp add: pow2_less_iff)
  have "(2::rat) powi (ilog2 x) < 2 powi (e + 1)"
    using assms(2) b by linarith
  then have 2: "ilog2 x < e + 1"
    by (simp add: pow2_less_iff)
  from 1 2 show ?thesis by simp
qed

lemma ilog2_mono:
  assumes "0 < x" and "x \<le> y"
  shows "ilog2 x \<le> ilog2 y"
proof -
  from assms have y: "0 < y" by simp
  note bx = ilog2_bounds [OF assms(1)] and by' = ilog2_bounds [OF y]
  have "(2::rat) powi (ilog2 x) < 2 powi (ilog2 y + 1)"
    using bx by' assms(2) by linarith
  then have "ilog2 x < ilog2 y + 1"
    by (simp add: pow2_less_iff)
  then show ?thesis by simp
qed


lemma round_half_even_of_int: "round_half_even (of_int n) = n"
  by (simp add: round_half_even_def)

lemma round_half_even_floor: "\<lfloor>x\<rfloor> \<le> round_half_even x \<and> round_half_even x \<le> \<lfloor>x\<rfloor> + 1"
  by (simp add: round_half_even_def Let_def)

lemma round_half_even_mono:
  assumes "x \<le> y"
  shows "round_half_even x \<le> round_half_even y"
proof (cases "\<lfloor>x\<rfloor> = \<lfloor>y\<rfloor>")
  case True
  with assms have "x - of_int \<lfloor>x\<rfloor> \<le> y - of_int \<lfloor>y\<rfloor>" by simp
  with True show ?thesis
    by (auto simp: round_half_even_def Let_def)
next
  case False
  with assms have "\<lfloor>x\<rfloor> < \<lfloor>y\<rfloor>"
    by (simp add: floor_mono order.not_eq_order_implies_strict)
  with round_half_even_floor [of x] round_half_even_floor [of y] show ?thesis
    by linarith
qed

lemma round_half_even_minus: "round_half_even (- x) = - round_half_even x"
proof (cases "x = of_int \<lfloor>x\<rfloor>")
  case True
  then obtain n where "x = of_int n" ..
  then show ?thesis
    by (simp add: round_half_even_of_int flip: of_int_minus)
next
  case False
  then have f: "\<lfloor>- x\<rfloor> = - \<lfloor>x\<rfloor> - 1"
    by (metis ceiling_def ceiling_altdef add.inverse_inverse diff_minus_eq_add minus_diff_eq
        add_diff_cancel_left' uminus_add_conv_diff)
  have d: "- x - of_int (- \<lfloor>x\<rfloor> - 1) = 1 - (x - of_int \<lfloor>x\<rfloor>)"
    by simp
  show ?thesis
    unfolding round_half_even_def Let_def f d
    by (auto simp: algebra_simps)
qed


lemma float64_pos_eq:
  assumes "0 < x"
  shows "float64 x = of_int (round_half_even (x / 2 powi (ilog2 x - 52))) * 2 powi (ilog2 x - 52)"
  using assms by (simp add: float64_def Let_def)

lemma scaled_bounds:
  assumes "0 < x"
  shows "2 ^ 52 \<le> x / 2 powi (ilog2 x - 52) \<and> x / 2 powi (ilog2 x - 52) < 2 ^ 53"
proof -
  define t where "t = x / 2 powi (ilog2 x)"
  note b = ilog2_bounds [OF assms]
  have v: "(2::rat) powi (ilog2 x + 1) = 2 powi (ilog2 x) * 2"
    by (simp add: power_int_add)
  have p: "0 < (2::rat) powi (ilog2 x)" by (rule pow2_pos)
  have q: "x / 2 powi (ilog2 x - 52) = t * 2 ^ 52"
    by (simp add: t_def power_int_diff)
  have 1: "1 \<le> t"
    using b p by (simp add: t_def field_simps)
  have 2: "t < 2"
  proof -
    from b have "x < 2 powi (ilog2 x + 1)" ..
    then have "x < 2 powi (ilog2 x) * 2" unfolding v .
    with p show ?thesis by (simp add: t_def field_simps)
  qed
  from 1 2 show ?thesis unfolding q by simp
qed

lemma float64_binade:
  assumes "0 < x"
  shows "2 powi (ilog2 x) \<le> float64 x \<and> float64 x \<le> 2 powi (ilog2 x + 1)"
proof -
  let ?ulp = "(2::rat) powi (ilog2 x - 52)"
  let ?q = "x / ?ulp"
  note s = scaled_bounds [OF assms]
  have "round_half_even (of_int (2 ^ 52)) \<le> round_half_even ?q"
    using s by (intro round_half_even_mono) simp
  then have lo: "2 ^ 52 \<le> round_half_even ?q"
    by (simp only: round_half_even_of_int)
  have "round_half_even ?q \<le> round_half_even (of_int (2 ^ 53))"
    using s by (intro round_half_even_mono) simp
  then have hi: "round_half_even ?q \<le> 2 ^ 53"
    by (simp only: round_half_even_of_int)
  have u: "2 powi (ilog2 x) = 2 ^ 52 * ?ulp"
    by (simp add: power_int_diff)
  have v: "2 powi (ilog2 x + 1) = 2 ^ 53 * ?ulp"
    by (simp add: power_int_diff power_int_add)
  have p: "0 < ?ulp" by (rule pow2_pos)
  have "(2::rat) ^ 52 \<le> of_int (round_half_even ?q)"
    using lo by (metis of_int_le_iff of_int_numeral of_int_power)
  then have 1: "2 powi (ilog2 x) \<le> float64 x"
    unfolding float64_pos_eq [OF assms] u using p by (simp del: power_int_diff)
  have "of_int (round_half_even ?q) \<le> (2::rat) ^ 53"
    using hi by (metis of_int_le_iff of_int_numeral of_int_power)
  then have 2: "float64 x \<le> 2 powi (ilog2 x + 1)"
    unfolding float64_pos_eq [OF assms] v using p by (simp del: power_int_diff)
  from 1 2 show ?thesis ..
qed

lemma float64_mono_pos:
  assumes "0 < x" and "x \<le> y"
  shows "float64 x \<le> float64 y"
proof -
  from assms have y: "0 < y" by simp
  from ilog2_mono [OF assms] consider "ilog2 x = ilog2 y" | "ilog2 x + 1 \<le> ilog2 y"
    by linarith
  then show ?thesis
  proof cases
    case 1
    let ?ulp = "(2::rat) powi (ilog2 y - 52)"
    have p: "0 < ?ulp" by (rule pow2_pos)
    have "x / ?ulp \<le> y / ?ulp"
      using assms(2) p by (simp add: divide_right_mono)
    then have "round_half_even (x / ?ulp) \<le> round_half_even (y / ?ulp)"
      by (rule round_half_even_mono)
    then have "(of_int (round_half_even (x / ?ulp)) :: rat) \<le> of_int (round_half_even (y / ?ulp))"
      by simp
    then show ?thesis
      unfolding float64_pos_eq [OF assms(1)] float64_pos_eq [OF y] 1
      using p by (simp add: mult_right_mono)
  next
    case 2
    have "float64 x \<le> 2 powi (ilog2 x + 1)"
      using float64_binade [OF assms(1)] by simp
    also have "\<dots> \<le> 2 powi (ilog2 y)"
      using 2 by (simp add: pow2_le_iff)
    also have "\<dots> \<le> float64 y"
      using float64_binade [OF y] by simp
    finally show ?thesis .
  qed
qed

lemma float64_minus: "float64 (- x) = - float64 x"
  by (simp add: float64_def Let_def round_half_even_minus)

lemma float64_nonneg: "0 \<le> x \<Longrightarrow> 0 \<le> float64 x"
proof (cases "x = 0")
  case False
  assume "0 \<le> x"
  with False have "0 < x" by simp
  from float64_binade [OF this] pow2_pos [of "ilog2 x"] show ?thesis by linarith
qed (simp add: float64_def)

lemma float64_mono:
  assumes "x \<le> y"
  shows "float64 x \<le> float64 y"
proof -
  consider "0 < x" | "x \<le> 0" "0 \<le> y" | "y < 0" by linarith
  then show ?thesis
  proof cases
    case 1
    then show ?thesis using assms by (rule float64_mono_pos)
  next
    case 2
    from float64_nonneg [of "- x"] 2(1) have "float64 x \<le> 0"
      by (simp add: float64_minus)
    also have "0 \<le> float64 y" using 2(2) by (rule float64_nonneg)
    finally show ?thesis .
  next
    case 3
    then have "0 < - y" "- y \<le> - x" using assms by simp_all
    then have "float64 (- y) \<le> float64 (- x)" by (rule float64_mono_pos)
    then show ?thesis by (simp add: float64_minus)
  qed
qed


lemma floor_numeral_divide: "\<lfloor>(numeral a :: rat) / numeral b\<rfloor> = numeral a div numeral b"
  by (metis floor_divide_of_int_eq of_int_numeral)

lemma float64_eval:
  assumes "2 powi e \<le> x" and "x < 2 powi (e + 1)"
  shows "float64 x = of_int (round_half_even (x / 2 powi (e - 52))) * 2 powi (e - 52)"
proof -
  have "0 < x" by (rule less_le_trans [OF pow2_pos assms(1)])
  then show ?thesis
    by (simp add: float64_pos_eq ilog2_unique [OF assms])
qed

lemma float64_10: "float64 10 = 10"
  by (subst float64_eval [where e = 3]) (simp_all add: round_half_even_def Let_def power_int_minus_divide floor_numeral_divide)

lemma float64_minus_10: "float64 (- 10) = - 10"
  by (simp add: float64_minus float64_10)

lemma float64_below_50: "float64 (50 - 50 / 2 ^ 53) = 50 - 1 / 2 ^ 47"
  by (subst float64_eval [where e = 5]) (simp_all add: round_half_even_def Let_def power_int_minus_divide floor_numeral_divide)

lemma float64_below_40: "float64 (40 - 1 / 2 ^ 47) = 40 - 1 / 2 ^ 47"
  by (subst float64_eval [where e = 5]) (simp_all add: round_half_even_def Let_def power_int_minus_divide floor_numeral_divide)

lemma float64_0: "float64 0 = 0"
  by (simp add: float64_def)

lemma float64_below_1:
  assumes "float64 u = u" and "u < 1"
  shows "u \<le> 1 - 1 / 2 ^ 53"
proof (cases "u < 1 / 2")
  case True
  then show ?thesis by simp
next
  case False
  then have "2 powi (- 1) \<le> u" by simp
  moreover have "u < 2 powi (- 1 + 1)" using assms(2) by simp
  ultimately have "float64 u = of_int (round_half_even (u / 2 powi (- 1 - 52))) * 2 powi (- 1 - 52)"
    by (rule float64_eval)
  then have u: "u = of_int (round_half_even (u * 2 ^ 53)) / 2 ^ 53"
    by (simp add: assms(1) power_int_minus_divide)
  define k where "k = round_half_even (u * 2 ^ 53)"
  from u have uk: "u = of_int k / 2 ^ 53" by (simp add: k_def)
  with assms(2) have "(of_int k :: rat) < 2 ^ 53" by simp
  then have "k < 2 ^ 53"
    by (metis of_int_less_iff of_int_numeral of_int_power)
  then have "k \<le> 2 ^ 53 - 1" by simp
  then have "(of_int k :: rat) \<le> of_int (2 ^ 53 - 1)" by (simp only: of_int_le_iff)
  then show ?thesis by (simp add: uk field_simps)
qed

lemma temp_range:
  assumes "0 \<le> u" and "u < 1" and "float64 u = u"
  shows "- 10 \<le> float64 (- 10 + float64 (u * 50)) \<and> float64 (- 10 + float64 (u * 50)) < 40"
proof -
  let ?p = "float64 (u * 50)"
  from float64_below_1 [OF assms(3,2)] have "u * 50 \<le> 50 - 50 / 2 ^ 53" by simp
  then have "?p \<le> float64 (50 - 50 / 2 ^ 53)" by (rule float64_mono)
  then have hi: "?p \<le> 50 - 1 / 2 ^ 47" by (simp only: float64_below_50)
  have lo: "0 \<le> ?p" using assms(1) by (intro float64_nonneg) simp
  have "float64 (- 10) \<le> float64 (- 10 + ?p)"
    using lo by (intro float64_mono) simp
  then have 1: "- 10 \<le> float64 (- 10 + ?p)" by (simp only: float64_minus_10)
  have "float64 (- 10 + ?p) \<le> float64 (40 - 1 / 2 ^ 47)"
    using hi by (intro float64_mono) simp
  then have "float64 (- 10 + ?p) \<le> 40 - 1 / 2 ^ 47" by (simp only: float64_below_40)
  then have 2: "float64 (- 10 + ?p) < 40" by simp
  from 1 2 show ?thesis ..
qed

subsection \<open>What a decoding into an article request changes\<close>

lemma decode_rel_refl: "decode_rel fr x x"
  by (simp add: decode_rel_def split: option.splits)

lemma decode_rel_trans: "decode_rel fr x y \<Longrightarrow> decode_rel fr y z \<Longrightarrow> decode_rel fr x z"
  by (auto simp: decode_rel_def target_def split: option.splits)

lemma field_rel: "decode_rel fr (fst acc) (fst (ArticleRequest_field fr acc m))"
  by (auto simp: ArticleRequest_field_def decode_rel_def target_def Let_def split: option.splits)

lemma foldl_field_rel: "decode_rel fr (fst acc) (fst (foldl (ArticleRequest_field fr) acc ms))"
proof (induction ms arbitrary: acc)
  case Nil
  show ?case by (simp add: decode_rel_refl)
next
  case (Cons m ms)
  have "decode_rel fr (fst acc) (fst (ArticleRequest_field fr acc m))"
    by (rule field_rel)
  moreover have "decode_rel fr (fst (ArticleRequest_field fr acc m))
      (fst (foldl (ArticleRequest_field fr) (ArticleRequest_field fr acc m) ms))"
    by (rule Cons.IH)
  ultimately show ?case
    by (simp add: decode_rel_trans)
qed

lemma DecodeJSON_rel: "decode_rel fr x (fst (DecodeJSON (ArticleRequest_field fr) b x))"
proof (cases b)
  case (Json v)
  show ?thesis
  proof (cases v)
    case (JObj ms)
    have "decode_rel fr (fst (x, False)) (fst (foldl (ArticleRequest_field fr) (x, False) ms))"
      by (rule foldl_field_rel)
    with Json JObj show ?thesis by (simp add: DecodeJSON_def Let_def)
  qed (simp_all add: Json DecodeJSON_def decode_rel_refl)
qed (simp_all add: DecodeJSON_def decode_rel_refl)

lemma Bind_rel: "decode_rel fr x (fst (ArticleRequest_Bind x))"
  by (auto simp: ArticleRequest_Bind_def decode_rel_def target_def Let_def split: option.splits)

lemma Bind_ok:
  "snd (ArticleRequest_Bind x) = None \<Longrightarrow>
     ArticleRequest.Article (snd (fst (ArticleRequest_Bind x))) \<noteq> None \<and>
     ProtectedID (snd (fst (ArticleRequest_Bind x))) = ''''"
  by (auto simp: ArticleRequest_Bind_def Let_def split: option.splits)

lemma render_Bind_rel:
  "decode_rel fr x (fst (render_Bind (ArticleRequest_field fr) ArticleRequest_Bind b x))"
proof (cases "snd (DecodeJSON (ArticleRequest_field fr) b x)")
  case None
  then show ?thesis
    using decode_rel_trans [OF DecodeJSON_rel Bind_rel]
    by (simp add: render_Bind_def Let_def)
next
  case (Some err)
  then show ?thesis
    using DecodeJSON_rel [of fr x b] by (simp add: render_Bind_def Let_def)
qed

lemma render_Bind_ok:
  "snd (render_Bind (ArticleRequest_field fr) ArticleRequest_Bind b x) = None \<Longrightarrow>
     ArticleRequest.Article (snd (fst (render_Bind (ArticleRequest_field fr) ArticleRequest_Bind b x))) \<noteq> None \<and>
     ProtectedID (snd (fst (render_Bind (ArticleRequest_field fr) ArticleRequest_Bind b x))) = ''''"
  by (cases "snd (DecodeJSON (ArticleRequest_field fr) b x)")
     (auto simp: render_Bind_def Let_def dest: Bind_ok)

lemma create_rel:
  "decode_rel fr (h, ArticleRequest_empty) y \<Longrightarrow>
     (ArticleRequest.Article (snd y) = None \<or> ArticleRequest.Article (snd y) = Some fr) \<and>
     (\<forall>q. q \<noteq> fr \<longrightarrow> fst y q = h q)"
  by (auto simp: decode_rel_def target_def ArticleRequest_empty_def)

lemma update_rel:
  "decode_rel fr (h, ArticleRequest_empty\<lparr>ArticleRequest.Article := Some p\<rparr>) y \<Longrightarrow>
     ArticleRequest.Article (snd y) = Some p \<and> (\<forall>q. Article.ID (fst y q) = Article.ID (h q)) \<and>
     (\<forall>q. q \<noteq> p \<longrightarrow> fst y q = h q)"
  by (auto simp: decode_rel_def target_def ArticleRequest_empty_def)

subsection \<open>What the article handlers change\<close>

lemma CreateArticle_fields:
  "snd (CreateArticle r st)\<lparr>heap := heap st, articles := articles st\<rparr> = st"
proof -
  let ?res = "render_Bind (ArticleRequest_field (fresh st)) ArticleRequest_Bind (body r)
                (heap st, ArticleRequest_empty)"
  show ?thesis
    by (cases "snd ?res"; cases "ArticleRequest.Article (snd (fst ?res))")
       (simp_all add: CreateArticle_def dbNewArticle_def Let_def)
qed

lemma CreateArticle_heap:
  assumes "q \<noteq> fresh st"
  shows "heap (snd (CreateArticle r st)) q = heap st q"
proof -
  let ?res = "render_Bind (ArticleRequest_field (fresh st)) ArticleRequest_Bind (body r)
                (heap st, ArticleRequest_empty)"
  have "decode_rel (fresh st) (heap st, ArticleRequest_empty) (fst ?res)"
    by (rule render_Bind_rel)
  note c = create_rel [OF this]
  then have "fst (fst ?res) q = heap st q"
    using assms by simp
  then show ?thesis
    using c assms
    by (cases "snd ?res"; cases "ArticleRequest.Article (snd (fst ?res))")
       (auto simp: CreateArticle_def dbNewArticle_def Let_def)
qed

lemma CreateArticle_heap_articles:
  "q \<in> set (articles st) \<Longrightarrow> heap (snd (CreateArticle r st)) q = heap st q"
  using fresh_notin [of st] by (intro CreateArticle_heap) auto

lemma CreateArticle_ok:
  assumes "snd (render_Bind (ArticleRequest_field (fresh st)) ArticleRequest_Bind (body r)
                (heap st, ArticleRequest_empty)) = None"
  shows "fst (CreateArticle r st) =
           \<lparr>status = 201, payload = JArticle (render_Article (fresh st) (snd (CreateArticle r st)))\<rparr> \<and>
         articles (snd (CreateArticle r st)) = articles st @ [fresh st] \<and>
         Article.ID (heap (snd (CreateArticle r st)) (fresh st)) = Sprintf_d (rand_Intn r + 10)"
proof -
  let ?res = "render_Bind (ArticleRequest_field (fresh st)) ArticleRequest_Bind (body r)
                (heap st, ArticleRequest_empty)"
  have "decode_rel (fresh st) (heap st, ArticleRequest_empty) (fst ?res)"
    by (rule render_Bind_rel)
  note c = create_rel [OF this]
  have "ArticleRequest.Article (snd (fst ?res)) \<noteq> None"
    using render_Bind_ok [OF assms] by simp
  with c have tg: "ArticleRequest.Article (snd (fst ?res)) = Some (fresh st)"
    by simp
  show ?thesis
    using assms tg by (simp add: CreateArticle_def dbNewArticle_def Let_def)
qed

lemma CreateArticle_new:
  assumes "snd (render_Bind (ArticleRequest_field (fresh st)) ArticleRequest_Bind (body r)
                (heap st, ArticleRequest_empty)) = None"
  shows "heap (snd (CreateArticle r st)) (fresh st) =
           (fst (fst (render_Bind (ArticleRequest_field (fresh st)) ArticleRequest_Bind (body r)
                        (heap st, ArticleRequest_empty))) (fresh st))
           \<lparr>Article.ID := Sprintf_d (rand_Intn r + 10)\<rparr>"
proof -
  let ?res = "render_Bind (ArticleRequest_field (fresh st)) ArticleRequest_Bind (body r)
                (heap st, ArticleRequest_empty)"
  have "decode_rel (fresh st) (heap st, ArticleRequest_empty) (fst ?res)"
    by (rule render_Bind_rel)
  note c = create_rel [OF this]
  have "ArticleRequest.Article (snd (fst ?res)) \<noteq> None"
    using render_Bind_ok [OF assms] by simp
  with c have tg: "ArticleRequest.Article (snd (fst ?res)) = Some (fresh st)"
    by simp
  show ?thesis
    using assms tg by (simp add: CreateArticle_def dbNewArticle_def Let_def)
qed

lemma CreateArticle_err:
  assumes "snd (render_Bind (ArticleRequest_field (fresh st)) ArticleRequest_Bind (body r)
                (heap st, ArticleRequest_empty)) = Some err"
  shows "fst (CreateArticle r st) = render_ErrResponse (ErrInvalidRequest err) \<and>
         articles (snd (CreateArticle r st)) = articles st"
  using assms by (simp add: CreateArticle_def Let_def)

lemma CreateArticle_articles:
  "articles (snd (CreateArticle r st)) = articles st \<or>
   articles (snd (CreateArticle r st)) = articles st @ [fresh st] \<and>
   Article.ID (heap (snd (CreateArticle r st)) (fresh st)) = Sprintf_d (rand_Intn r + 10)"
proof (cases "snd (render_Bind (ArticleRequest_field (fresh st)) ArticleRequest_Bind (body r)
                (heap st, ArticleRequest_empty))")
  case None
  from CreateArticle_ok [OF this] show ?thesis by simp
next
  case (Some err)
  from CreateArticle_err [OF this] show ?thesis by simp
qed

lemma UpdateArticle_no_article:
  "\<forall>p. ctx r ''article'' \<noteq> Some (CArticle p) \<Longrightarrow> UpdateArticle r st = (panicked, st)"
  by (auto simp: UpdateArticle_def split: option.splits ctxval.splits)

lemma UpdateArticle_fields:
  "snd (UpdateArticle r st)\<lparr>heap := heap st, articles := articles st\<rparr> = st"
proof (cases "\<exists>p. ctx r ''article'' = Some (CArticle p)")
  case False
  then show ?thesis by (simp add: UpdateArticle_no_article)
next
  case True
  then obtain p where p: "ctx r ''article'' = Some (CArticle p)" by blast
  let ?res = "render_Bind (ArticleRequest_field (fresh st)) ArticleRequest_Bind (body r)
                (heap st, ArticleRequest_empty\<lparr>ArticleRequest.Article := Some p\<rparr>)"
  show ?thesis
    using p
    by (cases "snd ?res"; cases "ArticleRequest.Article (snd (fst ?res))")
       (simp_all add: UpdateArticle_def dbUpdateArticle_def Let_def split: option.splits)
qed

lemma UpdateArticle_heap:
  "(ctx r ''article'' \<noteq> Some (CArticle q) \<longrightarrow> heap (snd (UpdateArticle r st)) q = heap st q) \<and>
   Article.ID (heap (snd (UpdateArticle r st)) q) = Article.ID (heap st q)"
proof (cases "\<exists>p. ctx r ''article'' = Some (CArticle p)")
  case False
  then show ?thesis by (simp add: UpdateArticle_no_article)
next
  case True
  then obtain p where p: "ctx r ''article'' = Some (CArticle p)" by blast
  let ?res = "render_Bind (ArticleRequest_field (fresh st)) ArticleRequest_Bind (body r)
                (heap st, ArticleRequest_empty\<lparr>ArticleRequest.Article := Some p\<rparr>)"
  have "decode_rel (fresh st) (heap st, ArticleRequest_empty\<lparr>ArticleRequest.Article := Some p\<rparr>)
          (fst ?res)"
    by (rule render_Bind_rel)
  note u = update_rel [OF this]
  show ?thesis
    using p u
    by (cases "snd ?res")
       (auto simp: UpdateArticle_def dbUpdateArticle_def Let_def split: option.splits)
qed

lemma UpdateArticle_articles:
  assumes "ctx r ''article'' = Some (CArticle p)"
  shows "articles (snd (UpdateArticle r st)) = articles st \<or>
         (\<exists>i. i < length (articles st) \<and>
              Article.ID (heap st (articles st ! i)) = Article.ID (heap st p) \<and>
              articles (snd (UpdateArticle r st)) = (articles st)[i := p])"
proof -
  let ?res = "render_Bind (ArticleRequest_field (fresh st)) ArticleRequest_Bind (body r)
                (heap st, ArticleRequest_empty\<lparr>ArticleRequest.Article := Some p\<rparr>)"
  have "decode_rel (fresh st) (heap st, ArticleRequest_empty\<lparr>ArticleRequest.Article := Some p\<rparr>)
          (fst ?res)"
    by (rule render_Bind_rel)
  note u = update_rel [OF this]
  show ?thesis
    using assms u
    by (cases "snd ?res")
       (auto simp: UpdateArticle_def dbUpdateArticle_def Let_def first_index_Some_iff
          split: option.splits)
qed

lemma UpdateArticle_found:
  assumes p: "ctx r ''article'' = Some (CArticle p)"
    and f: "first_index (\<lambda>a. Article.ID (heap st a) = aid) (articles st) = Some i"
    and n: "articles st ! i = p"
  shows "articles (snd (UpdateArticle r st)) = articles st"
proof -
  from UpdateArticle_articles [OF p, of st]
  show ?thesis
  proof
    assume "\<exists>k. k < length (articles st) \<and>
        Article.ID (heap st (articles st ! k)) = Article.ID (heap st p) \<and>
        articles (snd (UpdateArticle r st)) = (articles st)[k := p]"
    then obtain k where k: "k < length (articles st)"
      and e: "Article.ID (heap st (articles st ! k)) = Article.ID (heap st p)"
      and l: "articles (snd (UpdateArticle r st)) = (articles st)[k := p]"
      by blast
    let ?res = "render_Bind (ArticleRequest_field (fresh st)) ArticleRequest_Bind (body r)
                  (heap st, ArticleRequest_empty\<lparr>ArticleRequest.Article := Some p\<rparr>)"
    have "decode_rel (fresh st) (heap st, ArticleRequest_empty\<lparr>ArticleRequest.Article := Some p\<rparr>)
            (fst ?res)"
      by (rule render_Bind_rel)
    note u = update_rel [OF this]
    from f n have aid: "Article.ID (heap st p) = aid"
      by (auto simp: first_index_Some_iff)
    have "(\<lambda>a. Article.ID (fst (fst ?res) a) = Article.ID (fst (fst ?res) p)) =
          (\<lambda>a. Article.ID (heap st a) = aid)"
      using u aid by simp
    then show ?thesis
      using p u f n
      by (cases "snd ?res")
         (auto simp: UpdateArticle_def dbUpdateArticle_def Let_def split: option.splits)
  qed simp
qed

lemma UpdateArticle_ok:
  assumes "ctx r ''article'' = Some (CArticle p)"
    and "status (fst (UpdateArticle r st)) = 200"
  shows "payload (fst (UpdateArticle r st)) = JArticle (render_Article p (snd (UpdateArticle r st)))"
proof -
  let ?res = "render_Bind (ArticleRequest_field (fresh st)) ArticleRequest_Bind (body r)
                (heap st, ArticleRequest_empty\<lparr>ArticleRequest.Article := Some p\<rparr>)"
  have "decode_rel (fresh st) (heap st, ArticleRequest_empty\<lparr>ArticleRequest.Article := Some p\<rparr>)
          (fst ?res)"
    by (rule render_Bind_rel)
  note u = update_rel [OF this]
  show ?thesis
    using assms u
    by (cases "snd ?res")
       (auto simp: UpdateArticle_def Let_def render_ErrResponse_def ErrInvalidRequest_def)
qed

lemma DeleteArticle_fields:
  "snd (DeleteArticle r st)\<lparr>heap := heap st, articles := articles st\<rparr> = st"
  by (auto simp: DeleteArticle_def dbRemoveArticle_def Let_def split: option.splits ctxval.splits)

lemma DeleteArticle_heap: "heap (snd (DeleteArticle r st)) = heap st"
  by (auto simp: DeleteArticle_def dbRemoveArticle_def Let_def split: option.splits ctxval.splits)

lemma DeleteArticle_subset: "set (articles (snd (DeleteArticle r st))) \<subseteq> set (articles st)"
  by (auto simp: DeleteArticle_def dbRemoveArticle_def Let_def
      split: option.splits ctxval.splits dest: in_set_takeD in_set_dropD)

lemma GetArticle_state: "snd (GetArticle r st) = st"
  by (auto simp: GetArticle_def split: option.splits ctxval.splits)

subsection \<open>The states the router moves between\<close>

lemma URLParam_simps:
  "URLParam (r\<lparr>URLParams := [(k, v)]\<rparr>) k' = (if k' = k then v else '''')"
  by (simp add: URLParam_def)

lemma ArticleCtx_cases:
  "ArticleCtx next r st = (render_ErrResponse ErrNotFound, st) \<or>
   (\<exists>p. ArticleCtx next r st = next (r\<lparr>ctx := (ctx r)(''article'' \<mapsto> CArticle p)\<rparr>) st)"
  by (auto simp: ArticleCtx_def Let_def split: option.splits sum.splits)

lemma article_routes_state:
  "snd (article_routes t r st) = st \<or> snd (article_routes t r st) = snd (UpdateArticle r st) \<or>
   snd (article_routes t r st) = snd (DeleteArticle r st)"
  by (cases t) (simp_all add: article_routes_def GetArticle_state)

lemma adminRouter_state: "snd (adminRouter t r st) = st"
  by (cases t)
     (auto simp: adminRouter_def AdminOnly_def admin_routes_def Let_def
        split: option.splits ctxval.splits)

lemma serve_state:
  "snd (serve r st) = st \<or>
   (\<exists>t. snd (serve r st) = dbUpdateTime t st) \<or>
   (\<exists>t. snd (serve r st) = dbUpdateTemp t st) \<or>
   (\<exists>m. snd (serve r st) = dbUpdateMode m st) \<or>
   snd (serve r st) = snd (CreateArticle r st) \<or>
   (\<exists>r'. snd (serve r st) = snd (UpdateArticle r' st)) \<or>
   (\<exists>r'. snd (serve r st) = snd (DeleteArticle r' st))"
proof (cases "route r")
  case (ArticleID aid t)
  let ?r = "r\<lparr>URLParams := [(''articleID'', aid)]\<rparr>"
  from ArticleCtx_cases [of "article_routes t" ?r st] article_routes_state [of t _ st]
  show ?thesis
    unfolding serve_def ArticleID route.case
    by (metis snd_conv)
next
  case (GET_articleSlug slug)
  let ?r = "r\<lparr>URLParams := [(''articleSlug'', slug)]\<rparr>"
  from ArticleCtx_cases [of GetArticle ?r st]
  show ?thesis
    unfolding serve_def GET_articleSlug route.case
    by (auto simp: GetArticle_state)
next
  case (Admin t)
  then show ?thesis by (simp add: serve_def adminRouter_state)
next
  case PUT_time
  then show ?thesis
    by (auto simp: serve_def UpdateTime_def Let_def split: option.splits)
next
  case PUT_temp
  then show ?thesis
    by (auto simp: serve_def UpdateTemp_def Let_def split: option.splits)
next
  case PUT_mode
  then show ?thesis
    by (auto simp: serve_def UpdateMode_def Let_def split: option.splits)
qed (simp_all add: serve_def paginate_def ListArticles_def GetDevice_def GetTime_def GetTemp_def
      GetMode_def)

lemma run_invariant:
  assumes "\<And>r st. P st \<Longrightarrow> P (snd (serve r st))" and "P st"
  shows "P (run rs st)"
  using assms(2) by (induction rs arbitrary: st) (simp_all add: assms(1))

subsection \<open>The invariants\<close>

lemma frame_fields:
  assumes "st'\<lparr>heap := h, articles := a\<rparr> = st"
  shows "CurrentStateOfMode st' = CurrentStateOfMode st \<and>
         CurrentStateOfHeating st' = CurrentStateOfHeating st \<and>
         state.Mode st' = state.Mode st \<and> state.Heating st' = state.Heating st"
proof -
  have "CurrentStateOfMode (st'\<lparr>heap := h, articles := a\<rparr>) = CurrentStateOfMode st"
    "CurrentStateOfHeating (st'\<lparr>heap := h, articles := a\<rparr>) = CurrentStateOfHeating st"
    "state.Mode (st'\<lparr>heap := h, articles := a\<rparr>) = state.Mode st"
    "state.Heating (st'\<lparr>heap := h, articles := a\<rparr>) = state.Heating st"
    by (simp_all only: assms)
  then show ?thesis by simp
qed

lemma serve_slot0:
  assumes s: "slot0 st"
  shows "slot0 (snd (serve r st))"
proof -
  have c: "slot0 (snd (CreateArticle r st))"
    using frame_fields [OF CreateArticle_fields, of r st] s by (simp add: slot0_def)
  have u: "\<And>r'. slot0 (snd (UpdateArticle r' st))"
    using frame_fields [OF UpdateArticle_fields, of _ st] s by (simp add: slot0_def)
  have d: "\<And>r'. slot0 (snd (DeleteArticle r' st))"
    using frame_fields [OF DeleteArticle_fields, of _ st] s by (simp add: slot0_def)
  from serve_state [of r st] show ?thesis
    using s c u d
    by (auto simp: slot0_def dbUpdateTime_def dbUpdateTemp_def dbUpdateMode_def Let_def)
qed

lemma slot0_init: "slot0 (init now)"
  by (simp add: slot0_def init_def)

lemma slot0_run: "slot0 (run rs (init now))"
  by (rule run_invariant [where P = slot0, OF serve_slot0 slot0_init])

lemma CreateArticle_ids:
  assumes a: "ids_nonempty st"
  shows "ids_nonempty (snd (CreateArticle r st))"
  using CreateArticle_articles [of r st] a
  by (auto simp: ids_nonempty_def list_all_iff Sprintf_d_nonempty CreateArticle_heap_articles)

lemma UpdateArticle_ids:
  assumes a: "ids_nonempty st"
  shows "ids_nonempty (snd (UpdateArticle r st))"
proof (cases "\<exists>p. ctx r ''article'' = Some (CArticle p)")
  case False
  with a show ?thesis by (simp add: UpdateArticle_no_article)
next
  case True
  then obtain p where p: "ctx r ''article'' = Some (CArticle p)" by blast
  let ?st' = "snd (UpdateArticle r st)"
  have ids: "\<And>q. Article.ID (heap ?st' q) = Article.ID (heap st q)"
    by (simp add: UpdateArticle_heap)
  from UpdateArticle_articles [OF p, of st] show ?thesis
  proof
    assume "articles ?st' = articles st"
    with a ids show ?thesis by (simp add: ids_nonempty_def list_all_iff)
  next
    assume "\<exists>i. i < length (articles st) \<and>
        Article.ID (heap st (articles st ! i)) = Article.ID (heap st p) \<and>
        articles ?st' = (articles st)[i := p]"
    then obtain i where i: "i < length (articles st)"
      and e: "Article.ID (heap st (articles st ! i)) = Article.ID (heap st p)"
      and l: "articles ?st' = (articles st)[i := p]"
      by blast
    from a i have "Article.ID (heap st (articles st ! i)) \<noteq> ''''"
      by (simp add: ids_nonempty_def list_all_length)
    with e have "Article.ID (heap st p) \<noteq> ''''" by simp
    moreover have "set ((articles st)[i := p]) \<subseteq> insert p (set (articles st))"
      by (rule set_update_subset_insert)
    ultimately show ?thesis
      using a ids l by (auto simp: ids_nonempty_def list_all_iff)
  qed
qed

lemma DeleteArticle_ids:
  assumes a: "ids_nonempty st"
  shows "ids_nonempty (snd (DeleteArticle r st))"
  using a DeleteArticle_subset [of r st]
  by (auto simp: ids_nonempty_def list_all_iff DeleteArticle_heap)

lemma serve_ids:
  assumes a: "ids_nonempty st"
  shows "ids_nonempty (snd (serve r st))"
  using serve_state [of r st] CreateArticle_ids [OF a, of r] UpdateArticle_ids [OF a]
    DeleteArticle_ids [OF a] a
  by (auto simp: ids_nonempty_def dbUpdateTime_def dbUpdateTemp_def dbUpdateMode_def Let_def)

lemma ids_init: "ids_nonempty (init now)"
  by (simp add: ids_nonempty_def init_def fixture_heap_def)

lemma ids_run: "ids_nonempty (run rs (init now))"
  by (rule run_invariant [where P = ids_nonempty, OF serve_ids ids_init])

subsection \<open>The article middleware\<close>

lemma ArticleCtx_ID_notfound:
  assumes "\<forall>a\<in>set (articles st). Article.ID (heap st a) \<noteq> aid"
  shows "ArticleCtx next (r\<lparr>URLParams := [(''articleID'', aid)]\<rparr>) st =
           (render_ErrResponse ErrNotFound, st)"
proof -
  have "find (\<lambda>a. Article.ID (heap st a) = aid) (articles st) = None"
    using assms by (simp add: find_None_iff)
  then show ?thesis
    by (simp add: ArticleCtx_def URLParam_simps dbGetArticle_def Let_def)
qed

lemma ArticleCtx_ID_found:
  assumes "aid \<noteq> ''''"
    and "first_index (\<lambda>a. Article.ID (heap st a) = aid) (articles st) = Some i"
  shows "ArticleCtx next (r\<lparr>URLParams := [(''articleID'', aid)]\<rparr>) st =
           next (r\<lparr>URLParams := [(''articleID'', aid)],
                   ctx := (ctx r)(''article'' \<mapsto> CArticle (articles st ! i))\<rparr>) st"
proof -
  have "find (\<lambda>a. Article.ID (heap st a) = aid) (articles st) = Some (articles st ! i)"
    using assms(2) by (simp add: find_first_index)
  then show ?thesis
    using assms(1) by (simp add: ArticleCtx_def URLParam_simps dbGetArticle_def Let_def)
qed

lemma CreateArticle_201:
  assumes "status (fst (CreateArticle r st)) = 201"
  shows "snd (render_Bind (ArticleRequest_field (fresh st)) ArticleRequest_Bind (body r)
                (heap st, ArticleRequest_empty)) = None"
proof (cases "snd (render_Bind (ArticleRequest_field (fresh st)) ArticleRequest_Bind (body r)
                (heap st, ArticleRequest_empty))")
  case (Some err)
  from CreateArticle_err [OF this] assms show ?thesis
    by (simp add: render_ErrResponse_def ErrInvalidRequest_def)
qed simp

lemma serve_put_articles:
  assumes "route r = ArticleID aid ArticlePut"
  shows "articles (snd (serve r st)) = articles st"
proof -
  let ?r = "r\<lparr>URLParams := [(''articleID'', aid)]\<rparr>"
  let ?P = "\<lambda>a. Article.ID (heap st a) = aid"
  have s: "serve r st = ArticleCtx (article_routes ArticlePut) ?r st"
    using assms by (simp add: serve_def)
  show ?thesis
  proof (cases "aid \<noteq> '''' \<and> first_index ?P (articles st) \<noteq> None")
    case True
    then obtain i where ne: "aid \<noteq> ''''" and fi: "first_index ?P (articles st) = Some i"
      by blast
    let ?r' = "r\<lparr>URLParams := [(''articleID'', aid)],
                 ctx := (ctx r)(''article'' \<mapsto> CArticle (articles st ! i))\<rparr>"
    have c: "ctx ?r' ''article'' = Some (CArticle (articles st ! i))" by simp
    have "serve r st = UpdateArticle ?r' st"
      by (simp add: s ArticleCtx_ID_found [OF ne fi] article_routes_def)
    then show ?thesis
      by (simp add: UpdateArticle_found [OF c fi refl])
  next
    case False
    then have "serve r st = (render_ErrResponse ErrNotFound, st)"
      by (auto simp: s ArticleCtx_def URLParam_simps dbGetArticle_def find_first_index Let_def)
    then show ?thesis by simp
  qed
qed

lemma serve_put_ids:
  assumes "route r = ArticleID aid ArticlePut"
  shows "Article.ID (heap (snd (serve r st)) q) = Article.ID (heap st q)"
proof -
  let ?r = "r\<lparr>URLParams := [(''articleID'', aid)]\<rparr>"
  have s: "serve r st = ArticleCtx (article_routes ArticlePut) ?r st"
    using assms by (simp add: serve_def)
  from ArticleCtx_cases [of "article_routes ArticlePut" ?r st] show ?thesis
    by (auto simp: s article_routes_def UpdateArticle_heap)
qed

lemma example_float64: "float64 (1 / 4) = 1 / 4"
  by (subst float64_eval [where e = "- 2"])
     (simp_all add: round_half_even_def Let_def power_int_minus_divide floor_numeral_divide)

lemma example_temp:
  "Sprintf_f (float64 (min_temp + float64 (1 / 4 * (max_temp - min_temp)))) = ''2.500000''"
proof -
  have 1: "float64 (25 / 2) = 25 / 2"
    by (subst float64_eval [where e = 3])
       (simp_all add: round_half_even_def Let_def power_int_minus_divide floor_numeral_divide)
  have 2: "float64 (5 / 2) = 5 / 2"
    by (subst float64_eval [where e = 1])
       (simp_all add: round_half_even_def Let_def power_int_minus_divide floor_numeral_divide)
  have 3: "float64 (min_temp + float64 (1 / 4 * (max_temp - min_temp))) = 5 / 2"
    by (simp add: min_temp_def max_temp_def 1 2)
  have 4: "Sprintf_f (5 / 2) = ''2.500000''"
    by (simp add: Sprintf_f_def round_half_even_def digits.simps digit_def Let_def)
  show ?thesis
    by (simp only: 3 4)
qed

subsection \<open>The claims\<close>

lemmas decode_defs =
  render_Bind_def DecodeJSON_def ToLower_def lower_char_def DecodeRune.simps smallLongEss_def
  kelvin_def Let_def

lemmas handler_defs =
  serve_def ArticleCtx_def URLParam_def article_routes_def UpdateArticle_def GetArticle_def
  dbGetArticle_def dbUpdateArticle_def render_ErrResponse_def ErrInvalidRequest_def
  ArticleRequest_field_def ArticleRequest_Bind_def ArticleRequest_empty_def

text \<open>
  Keys are matched up to case folding: a member keyed \<open>slug\<close> with a long s is the slug,
  so a number there is a type error and the request is answered with 400.
\<close>

lemma folded_key_type_error:
  assumes "route r = POST_articles"
    and "body r = Json (JObj [(''title'', JStr t), ([CHR 0xC5, CHR 0xBF] @ ''lug'', JInt 5)])"
  shows "fst (serve r st) = render_ErrResponse (ErrInvalidRequest json_UnmarshalTypeError) \<and>
         articles (snd (serve r st)) = articles st"
proof -
  have "snd (render_Bind (ArticleRequest_field (fresh st)) ArticleRequest_Bind (body r)
               (heap st, ArticleRequest_empty)) = Some json_UnmarshalTypeError"
    by (simp add: assms(2) decode_defs ArticleRequest_field_def ArticleRequest_Bind_def
        ArticleRequest_empty_def)
  from CreateArticle_err [OF this] show ?thesis
    using assms(1) by (simp add: serve_def)
qed

lemma folded_key_binds:
  "render_Bind (ArticleRequest_field fr) ArticleRequest_Bind
     (Json (JObj [(''title'', JStr t), ([CHR 0xC5, CHR 0xBF] @ ''lug'', JStr s)]))
     (h, ArticleRequest_empty)
   = ((h(fr := \<lparr>Article.ID = '''', UserID = 0, Title = ToLower t, Slug = s\<rparr>),
       \<lparr>ArticleRequest.Article = Some fr, User = None, ProtectedID = ''''\<rparr>), None)"
  by (simp add: render_Bind_def DecodeJSON_def lower_char_def DecodeRune.simps smallLongEss_def
      kelvin_def Let_def ArticleRequest_field_def ArticleRequest_Bind_def
      ArticleRequest_empty_def Article_zero_def)

text \<open>
  \<open>strings.ToLower\<close> on a string of ASCII bytes, on a string with the letter \<open>U+00C9\<close>,
  and on a byte that is no UTF-8.
\<close>

lemma ToLower_ascii: "ToLower ''Hello, World'' = ''hello, world''"
  by (simp add: ToLower_def lower_char_def)

lemma ToLower_latin1: "ToLower [CHR 0xC3, CHR 0x89, CHR ''A''] = [CHR 0xC3, CHR 0xA9, CHR ''a'']"
  by (simp add: ToLower_def strings_Map_def runes.simps DecodeRune.simps unicode_ToLower_def
      CaseRanges_def EncodeRune_def char_of_def Let_def bit_Suc_0_iff)

lemma ToLower_invalid: "ToLower [CHR 0xFF] = [CHR 0xEF, CHR 0xBF, CHR 0xBD]"
  by (simp add: ToLower_def strings_Map_def runes.simps DecodeRune.simps unicode_ToLower_def
      CaseRanges_def EncodeRune_def char_of_def Let_def RuneError_def bit_Suc_0_iff)

text \<open>The keys that are the name \<open>id\<close> up to case folding.\<close>

lemma lower_char_i: "CHR ''i'' = lower_char c \<longleftrightarrow> c = CHR ''i'' \<or> c = CHR ''I''"
  by (auto simp: lower_char_def)

lemma lower_char_d: "CHR ''d'' = lower_char c \<longleftrightarrow> c = CHR ''d'' \<or> c = CHR ''D''"
  by (auto simp: lower_char_def)

lemma equalFold_id: "equalFold ''id'' k \<longleftrightarrow> k \<in> {''id'', ''Id'', ''iD'', ''ID''}"
proof (cases k)
  case Nil
  then show ?thesis by simp
next
  case (Cons a k1)
  note 1 = this
  have i: "lower_char CHR ''i'' = CHR ''i''" and d: "lower_char CHR ''d'' = CHR ''d''"
    by (simp_all add: lower_char_def)
  show ?thesis
  proof (cases k1)
    case Nil
    with 1 show ?thesis by (simp add: Let_def)
  next
    case (Cons b k2)
    show ?thesis
      unfolding 1 Cons
      by (cases k2) (auto simp: i d Let_def lower_char_i lower_char_d)
  qed
qed

text \<open>
  C1. A \<open>PUT /rest/v1/mode\<close> whose body binds to a \<open>ModesIn\<close> record stores
  \<open>CurrentStateOfMode\<close> in \<open>Mode[0]\<close>, the incoming mode string in \<open>Mode[1]\<close>,
  \<open>CurrentStateOfHeating\<close> in \<open>Heating[0]\<close> and the incoming heating string in
  \<open>Heating[1]\<close>, and answers with the two resulting pairs. Nothing validates the
  incoming strings: any two strings bind (the heating string under the key \<open>heting\<close>).
\<close>

theorem C1_UpdateMode:
  assumes "route r = PUT_mode"
    and "render_Bind ModesIn_field ModesIn_Bind (body r) \<lparr>ModesIn.Mode = '''', Heating = ''''\<rparr>
           = (mode, None)"
  shows "state.Mode (dbUpdateMode mode st) = (CurrentStateOfMode st, ModesIn.Mode mode) \<and>
         state.Heating (dbUpdateMode mode st) = (CurrentStateOfHeating st, ModesIn.Heating mode) \<and>
         serve r st =
           (\<lparr>status = 200,
             payload = JModes \<lparr>Modes.Mode = (CurrentStateOfMode st, ModesIn.Mode mode),
                               Heating = (CurrentStateOfHeating st, ModesIn.Heating mode)\<rparr>\<rparr>,
            dbUpdateMode mode st) \<and>
         (\<forall>x y. render_Bind ModesIn_field ModesIn_Bind
                  (Json (JObj [(''mode'', JStr x), (''heting'', JStr y)]))
                  \<lparr>ModesIn.Mode = '''', Heating = ''''\<rparr>
                = (\<lparr>ModesIn.Mode = x, Heating = y\<rparr>, None))"
proof -
  have "state.Mode (dbUpdateMode mode st) = (CurrentStateOfMode st, ModesIn.Mode mode)"
    by (simp add: dbUpdateMode_def Let_def)
  moreover have "state.Heating (dbUpdateMode mode st) = (CurrentStateOfHeating st, ModesIn.Heating mode)"
    by (simp add: dbUpdateMode_def Let_def)
  moreover have "serve r st =
           (\<lparr>status = 200,
             payload = JModes \<lparr>Modes.Mode = (CurrentStateOfMode st, ModesIn.Mode mode),
                               Heating = (CurrentStateOfHeating st, ModesIn.Heating mode)\<rparr>\<rparr>,
            dbUpdateMode mode st)"
    using assms by (simp add: serve_def UpdateMode_def dbGetMode_def dbUpdateMode_def Let_def)
  moreover have "\<forall>x y. render_Bind ModesIn_field ModesIn_Bind
                  (Json (JObj [(''mode'', JStr x), (''heting'', JStr y)]))
                  \<lparr>ModesIn.Mode = '''', Heating = ''''\<rparr>
                = (\<lparr>ModesIn.Mode = x, Heating = y\<rparr>, None)"
    by (simp add: decode_defs ModesIn_field_def ModesIn_Bind_def)
  ultimately show ?thesis by blast
qed

theorem C1_UpdateMode_witness:
  "serve (example_request\<lparr>route := PUT_mode,
            body := Json (JObj [(''mode'', JStr ''purple''), (''heting'', JStr ''42'')])\<rparr>)
         (init example_now) =
     (\<lparr>status = 200,
       payload = JModes \<lparr>Modes.Mode = (''night'', ''purple''), Heating = (''off'', ''42'')\<rparr>\<rparr>,
      dbUpdateMode \<lparr>ModesIn.Mode = ''purple'', Heating = ''42''\<rparr> (init example_now))"
proof -
  let ?r = "example_request\<lparr>route := PUT_mode,
            body := Json (JObj [(''mode'', JStr ''purple''), (''heting'', JStr ''42'')])\<rparr>"
  have h1: "route ?r = PUT_mode" by simp
  have h2: "render_Bind ModesIn_field ModesIn_Bind (body ?r) \<lparr>ModesIn.Mode = '''', Heating = ''''\<rparr>
           = (\<lparr>ModesIn.Mode = ''purple'', Heating = ''42''\<rparr>, None)"
    by (simp add: decode_defs ModesIn_field_def ModesIn_Bind_def)
  show ?thesis
    using C1_UpdateMode [OF h1 h2, of "init example_now"] by (simp add: init_def)
qed

text \<open>
  C2. A \<open>GET /rest/v1/temp\<close> answers with \<open>currenttemp\<close> the \<open>%f\<close> format of
  \<open>min + u * (max - min)\<close>, where \<open>u\<close> is the \<open>float64\<close> in \<open>[0, 1)\<close> drawn for
  the request and the product and the sum are \<open>float64\<close> operations; this value is in
  \<open>[-10, 40)\<close>. The fields \<open>daytemp\<close>, \<open>nighttemp\<close> and \<open>thereshold\<close> are the
  variables \<open>DayTemp\<close>, \<open>NightTemp\<close> and \<open>Thereshold\<close>, and the state after the
  request is the state before it: no variable is assigned.
\<close>

theorem C2_GetTemp:
  assumes "route r = GET_temp"
    and "0 \<le> rand_Float64 r" and "rand_Float64 r < 1"
    and "float64 (rand_Float64 r) = rand_Float64 r"
  shows "serve r st =
           (\<lparr>status = 200,
             payload = JTemp \<lparr>Temp.CurrentTemp =
                                 Sprintf_f (float64 (min_temp +
                                   float64 (rand_Float64 r * (max_temp - min_temp)))),
                              NightTemp = state.NightTemp st, DayTemp = state.DayTemp st,
                              Thereshold = state.Thereshold st\<rparr>\<rparr>,
            st) \<and>
         - 10 \<le> float64 (min_temp + float64 (rand_Float64 r * (max_temp - min_temp))) \<and>
         float64 (min_temp + float64 (rand_Float64 r * (max_temp - min_temp))) < 40"
proof -
  have "min_temp + float64 (rand_Float64 r * (max_temp - min_temp)) =
      - 10 + float64 (rand_Float64 r * 50)"
    by (simp add: min_temp_def max_temp_def)
  with temp_range [OF assms(2,3,4)] show ?thesis
    using assms(1) by (simp add: serve_def GetTemp_def dbGetTemp_def)
qed

theorem C2_GetTemp_witness:
  "float64 (1 / 4) = 1 / 4 \<and>
   serve (example_request\<lparr>route := GET_temp\<rparr>) (init example_now) =
     (\<lparr>status = 200,
       payload = JTemp \<lparr>Temp.CurrentTemp = ''2.500000'', NightTemp = ''18.00'', DayTemp = ''24.00'',
                        Thereshold = ''0.20''\<rparr>\<rparr>,
      init example_now)"
proof -
  let ?r = "example_request\<lparr>route := GET_temp\<rparr>"
  let ?st = "init example_now"
  have u: "rand_Float64 ?r = 1 / 4" by (simp add: example_request_def)
  have h1: "route ?r = GET_temp" by simp
  have h2: "0 \<le> rand_Float64 ?r" and h3: "rand_Float64 ?r < 1"
    by (simp_all add: u)
  have h4: "float64 (rand_Float64 ?r) = rand_Float64 ?r"
    by (simp only: u example_float64)
  have g: "state.NightTemp ?st = ''18.00''" "state.DayTemp ?st = ''24.00''"
    "state.Thereshold ?st = ''0.20''"
    by (simp_all add: init_def)
  from C2_GetTemp [OF h1 h2 h3 h4, of ?st]
  have "serve ?r ?st =
      (\<lparr>status = 200,
        payload = JTemp \<lparr>Temp.CurrentTemp =
            Sprintf_f (float64 (min_temp + float64 (rand_Float64 ?r * (max_temp - min_temp)))),
          NightTemp = state.NightTemp ?st, DayTemp = state.DayTemp ?st,
          Thereshold = state.Thereshold ?st\<rparr>\<rparr>, ?st)"
    by (rule conjunct1)
  then show ?thesis
    by (simp only: u example_temp g example_float64 simp_thms)
qed

text \<open>
  C3. A \<open>POST /rest/v1\<close> whose body binds to an \<open>ArticleRequest\<close> gives the new
  article the ID \<open>Sprintf("%d", n + 10)\<close>, where \<open>n\<close> is the number in \<open>[0, 100)\<close>
  drawn for the request, so a number from 10 to 109; the other fields of the new article
  are as the binding left them; it appends the new article's pointer at the end of the
  articles slice; the articles that were in the slice stay where they were and as they
  were, and so does every other variable; the answer is 201 with the created article. A
  body with a title and a slug binds to an article with the title in lower case and the
  slug.
\<close>

theorem C3_CreateArticle:
  assumes "route r = POST_articles"
    and "snd (render_Bind (ArticleRequest_field (fresh st)) ArticleRequest_Bind (body r)
                (heap st, ArticleRequest_empty)) = None"
    and "0 \<le> rand_Intn r" and "rand_Intn r < 100"
    and "st' = snd (serve r st)"
  shows "fst (serve r st) = \<lparr>status = 201, payload = JArticle (render_Article (fresh st) st')\<rparr> \<and>
         ArticleResponse.Article (render_Article (fresh st) st') = heap st' (fresh st) \<and>
         heap st' (fresh st) =
           (fst (fst (render_Bind (ArticleRequest_field (fresh st)) ArticleRequest_Bind (body r)
                        (heap st, ArticleRequest_empty))) (fresh st))
           \<lparr>Article.ID := Sprintf_d (rand_Intn r + 10)\<rparr> \<and>
         Article.ID (heap st' (fresh st)) = Sprintf_d (rand_Intn r + 10) \<and>
         10 \<le> rand_Intn r + 10 \<and> rand_Intn r + 10 \<le> 109 \<and>
         articles st' = articles st @ [fresh st] \<and>
         fresh st \<notin> set (articles st) \<and>
         (\<forall>q\<in>set (articles st). heap st' q = heap st q) \<and>
         st'\<lparr>heap := heap st, articles := articles st\<rparr> = st \<and>
         (\<forall>t s fr h.
            render_Bind (ArticleRequest_field fr) ArticleRequest_Bind
              (Json (JObj [(''title'', JStr t), (''slug'', JStr s)])) (h, ArticleRequest_empty)
            = ((h(fr := \<lparr>Article.ID = '''', UserID = 0, Title = ToLower t, Slug = s\<rparr>),
                \<lparr>ArticleRequest.Article = Some fr, User = None, ProtectedID = ''''\<rparr>), None))"
proof -
  have s: "serve r st = CreateArticle r st"
    using assms(1) by (simp add: serve_def)
  have r: "ArticleResponse.Article (render_Article (fresh st) st') = heap st' (fresh st)"
    by (simp add: render_Article_def ArticleResponse_Render_def NewArticleResponse_def)
  have b: "\<forall>t s fr h.
            render_Bind (ArticleRequest_field fr) ArticleRequest_Bind
              (Json (JObj [(''title'', JStr t), (''slug'', JStr s)])) (h, ArticleRequest_empty)
            = ((h(fr := \<lparr>Article.ID = '''', UserID = 0, Title = ToLower t, Slug = s\<rparr>),
                \<lparr>ArticleRequest.Article = Some fr, User = None, ProtectedID = ''''\<rparr>), None)"
    by (simp add: render_Bind_def DecodeJSON_def lower_char_def Let_def ArticleRequest_field_def
        ArticleRequest_Bind_def ArticleRequest_empty_def Article_zero_def)
  have n: "heap st' (fresh st) =
           (fst (fst (render_Bind (ArticleRequest_field (fresh st)) ArticleRequest_Bind (body r)
                        (heap st, ArticleRequest_empty))) (fresh st))
           \<lparr>Article.ID := Sprintf_d (rand_Intn r + 10)\<rparr>"
    by (simp add: s assms(5) CreateArticle_new [OF assms(2)])
  have 1: "fst (serve r st) = \<lparr>status = 201, payload = JArticle (render_Article (fresh st) st')\<rparr>"
    and 2: "Article.ID (heap st' (fresh st)) = Sprintf_d (rand_Intn r + 10)"
    and 3: "articles st' = articles st @ [fresh st]"
    using CreateArticle_ok [OF assms(2)] by (simp_all add: s assms(5))
  have 4: "\<forall>q\<in>set (articles st). heap st' q = heap st q"
    by (simp add: s assms(5) CreateArticle_heap_articles)
  have 5: "st'\<lparr>heap := heap st, articles := articles st\<rparr> = st"
    by (simp add: s assms(5) CreateArticle_fields)
  have 6: "10 \<le> rand_Intn r + 10 \<and> rand_Intn r + 10 \<le> 109"
    using assms(3,4) by simp
  from 1 r n 2 6 3 fresh_notin [of st] 4 5 b show ?thesis
    by blast
qed

theorem C3_CreateArticle_witness:
  "snd (render_Bind (ArticleRequest_field (fresh (init example_now))) ArticleRequest_Bind
         (Json (JObj [(''id'', JStr ''will-be-omitted''), (''title'', JStr ''Awesomeness'')]))
         (heap (init example_now), ArticleRequest_empty)) = None \<and>
   status (fst (serve (example_request\<lparr>route := POST_articles,
      body := Json (JObj [(''id'', JStr ''will-be-omitted''), (''title'', JStr ''Awesomeness'')])\<rparr>)
      (init example_now))) = 201 \<and>
   articles (snd (serve (example_request\<lparr>route := POST_articles,
      body := Json (JObj [(''id'', JStr ''will-be-omitted''), (''title'', JStr ''Awesomeness'')])\<rparr>)
      (init example_now))) = [0, 1, 2, 3, 4, 5] \<and>
   heap (snd (serve (example_request\<lparr>route := POST_articles,
      body := Json (JObj [(''id'', JStr ''will-be-omitted''), (''title'', JStr ''Awesomeness'')])\<rparr>)
      (init example_now))) 5 =
     \<lparr>Article.ID = ''97'', UserID = 0, Title = ''awesomeness'', Slug = ''''\<rparr>"
proof -
  let ?b = "Json (JObj [(''id'', JStr ''will-be-omitted''), (''title'', JStr ''Awesomeness'')])"
  let ?r = "example_request\<lparr>route := POST_articles, body := ?b\<rparr>"
  let ?st = "init example_now"
  have f: "fresh ?st = 5" by (simp add: fresh_def init_def)
  have a: "articles ?st = [0, 1, 2, 3, 4]" by (simp add: init_def)
  have h1: "route ?r = POST_articles" by simp
  have l: "ToLower ''Awesomeness'' = ''awesomeness''"
    by (simp add: ToLower_def lower_char_def)
  have h0: "render_Bind (ArticleRequest_field 5) ArticleRequest_Bind ?b
                (heap ?st, ArticleRequest_empty) =
             (((heap ?st)(5 := \<lparr>Article.ID = '''', UserID = 0, Title = ''awesomeness'', Slug = ''''\<rparr>),
               \<lparr>ArticleRequest.Article = Some 5, User = None, ProtectedID = ''''\<rparr>), None)"
    by (simp add: render_Bind_def DecodeJSON_def lower_char_def Let_def ArticleRequest_field_def
        ArticleRequest_Bind_def ArticleRequest_empty_def Article_zero_def l)
  have h2: "snd (render_Bind (ArticleRequest_field (fresh ?st)) ArticleRequest_Bind (body ?r)
                (heap ?st, ArticleRequest_empty)) = None"
    by (simp add: f h0)
  have h3: "0 \<le> rand_Intn ?r" and h4: "rand_Intn ?r < 100" and n: "rand_Intn ?r = 87"
    by (simp_all add: example_request_def)
  have d: "Sprintf_d 97 = ''97''"
    by (simp add: Sprintf_d_def digits.simps digit_def)
  note t = C3_CreateArticle [OF h1 h2 h3 h4 refl]
  from t have 1: "fst (serve ?r ?st) =
      \<lparr>status = 201, payload = JArticle (render_Article (fresh ?st) (snd (serve ?r ?st)))\<rparr>"
    by (rule conjunct1)
  from t have 2: "articles (snd (serve ?r ?st)) = articles ?st @ [fresh ?st]"
    by blast
  from t have 3: "heap (snd (serve ?r ?st)) (fresh ?st) =
           (fst (fst (render_Bind (ArticleRequest_field (fresh ?st)) ArticleRequest_Bind (body ?r)
                        (heap ?st, ArticleRequest_empty))) (fresh ?st))
           \<lparr>Article.ID := Sprintf_d (rand_Intn ?r + 10)\<rparr>"
    by blast
  have 4: "status (fst (serve ?r ?st)) = 201"
    by (simp add: 1)
  have 5: "heap (snd (serve ?r ?st)) 5 =
      \<lparr>Article.ID = ''97'', UserID = 0, Title = ''awesomeness'', Slug = ''''\<rparr>"
    using 3 by (simp add: f h0 n d)
  from h2 2 4 5 show ?thesis
    by (simp add: f a)
qed

text \<open>
  C4. On the routes of \<open>/rest/v1/{articleID}\<close>, in every state the service reaches
  from its initial one: when no article of the slice has the ID of the path, the answer
  is 404 with the status text \<open>Resource not found.\<close> and the state is as before; when
  some article has it, the middleware puts the first such article on the context and the
  handler works on that article: \<open>GET\<close> answers with it, \<open>DELETE\<close> removes it from its
  place in the slice and answers with it, \<open>PUT\<close> changes no other article and keeps the
  slice, and answers with it when it answers 200.
\<close>

theorem C4_article_by_id:
  assumes "route r = ArticleID aid t" and "st = run rs (init now)"
  shows "((\<forall>a\<in>set (articles st). Article.ID (heap st a) \<noteq> aid) \<longrightarrow>
            serve r st =
              (\<lparr>status = 404,
                payload = JErr \<lparr>Err = None, HTTPStatusCode = 404,
                                StatusText = ''Resource not found.'', AppCode = 0,
                                ErrorText = None\<rparr>\<rparr>, st)) \<and>
         (\<forall>i. i < length (articles st) \<and> Article.ID (heap st (articles st ! i)) = aid \<and>
              (\<forall>j<i. Article.ID (heap st (articles st ! j)) \<noteq> aid) \<longrightarrow>
              serve r st =
                article_routes t
                  (r\<lparr>URLParams := [(''articleID'', aid)],
                     ctx := (ctx r)(''article'' \<mapsto> CArticle (articles st ! i))\<rparr>) st \<and>
              (t = ArticleGet \<longrightarrow>
                 serve r st =
                   (\<lparr>status = 200, payload = JArticle (render_Article (articles st ! i) st)\<rparr>,
                    st)) \<and>
              (t = ArticleDelete \<longrightarrow>
                 fst (serve r st) =
                   \<lparr>status = 200,
                    payload = JArticle (render_Article (articles st ! i) (snd (serve r st)))\<rparr> \<and>
                 snd (serve r st) =
                   st\<lparr>articles := take i (articles st) @ drop (Suc i) (articles st)\<rparr>) \<and>
              (t = ArticlePut \<longrightarrow>
                 articles (snd (serve r st)) = articles st \<and>
                 (\<forall>q. q \<noteq> articles st ! i \<longrightarrow> heap (snd (serve r st)) q = heap st q) \<and>
                 (status (fst (serve r st)) = 200 \<longrightarrow>
                    payload (fst (serve r st)) =
                      JArticle (render_Article (articles st ! i) (snd (serve r st))))))"
proof (intro conjI allI impI)
  let ?r = "r\<lparr>URLParams := [(''articleID'', aid)]\<rparr>"
  have s: "serve r st = ArticleCtx (article_routes t) ?r st"
    using assms(1) by (simp add: serve_def)
  assume "\<forall>a\<in>set (articles st). Article.ID (heap st a) \<noteq> aid"
  then show "serve r st =
        (\<lparr>status = 404,
          payload = JErr \<lparr>Err = None, HTTPStatusCode = 404, StatusText = ''Resource not found.'',
                          AppCode = 0, ErrorText = None\<rparr>\<rparr>, st)"
    by (simp add: s ArticleCtx_ID_notfound render_ErrResponse_def ErrNotFound_def)
next
  fix i
  let ?p = "articles st ! i"
  let ?r' = "r\<lparr>URLParams := [(''articleID'', aid)],
               ctx := (ctx r)(''article'' \<mapsto> CArticle ?p)\<rparr>"
  assume "i < length (articles st) \<and> Article.ID (heap st ?p) = aid \<and>
      (\<forall>j<i. Article.ID (heap st (articles st ! j)) \<noteq> aid)"
  then have i: "i < length (articles st)" and e: "Article.ID (heap st ?p) = aid"
    and fi: "first_index (\<lambda>a. Article.ID (heap st a) = aid) (articles st) = Some i"
    by (simp_all add: first_index_Some_iff)
  have "ids_nonempty st"
    unfolding assms(2) by (rule ids_run)
  with i have "Article.ID (heap st ?p) \<noteq> ''''"
    by (simp add: ids_nonempty_def list_all_length)
  with e have ne: "aid \<noteq> ''''" by simp
  have "serve r st = ArticleCtx (article_routes t) (r\<lparr>URLParams := [(''articleID'', aid)]\<rparr>) st"
    using assms(1) by (simp add: serve_def)
  then show s': "serve r st = article_routes t ?r' st"
    by (simp add: ArticleCtx_ID_found [OF ne fi])
  have c: "ctx ?r' ''article'' = Some (CArticle ?p)" by simp
  {
    assume "t = ArticleGet"
    then show "serve r st =
        (\<lparr>status = 200, payload = JArticle (render_Article ?p st)\<rparr>, st)"
      by (simp add: s' article_routes_def GetArticle_def)
  }
  {
    assume t: "t = ArticleDelete"
    then have d: "serve r st =
        (\<lparr>status = 200,
          payload = JArticle (render_Article ?p
            (st\<lparr>articles := take i (articles st) @ drop (Suc i) (articles st)\<rparr>))\<rparr>,
         st\<lparr>articles := take i (articles st) @ drop (Suc i) (articles st)\<rparr>)"
      using fi e by (simp add: s' article_routes_def DeleteArticle_def dbRemoveArticle_def Let_def)
    show "fst (serve r st) =
        \<lparr>status = 200, payload = JArticle (render_Article ?p (snd (serve r st)))\<rparr>"
      by (simp add: d)
    show "snd (serve r st) = st\<lparr>articles := take i (articles st) @ drop (Suc i) (articles st)\<rparr>"
      by (simp add: d)
  }
  {
    assume t: "t = ArticlePut"
    then have u: "serve r st = UpdateArticle ?r' st"
      by (simp add: s' article_routes_def)
    show "articles (snd (serve r st)) = articles st"
      unfolding u by (rule UpdateArticle_found [OF c fi refl])
    {
      fix q assume "q \<noteq> ?p"
      then have "ctx ?r' ''article'' \<noteq> Some (CArticle q)" by simp
      then show "heap (snd (serve r st)) q = heap st q"
        unfolding u using UpdateArticle_heap [of ?r' q st] by blast
    }
    {
      assume "status (fst (serve r st)) = 200"
      then show "payload (fst (serve r st)) = JArticle (render_Article ?p (snd (serve r st)))"
        unfolding u by (rule UpdateArticle_ok [OF c])
    }
  }
qed

theorem C4_article_by_id_witness:
  "serve (example_request\<lparr>route := ArticleID ''1'' ArticleGet\<rparr>) (init example_now) =
     (\<lparr>status = 200,
       payload = JArticle
         \<lparr>ArticleResponse.Article =
            \<lparr>Article.ID = ''1'', UserID = 100, Title = ''Hi'', Slug = ''hi''\<rparr>,
          User = Some \<lparr>UserPayload.User = Some \<lparr>User.ID = 100, Name = ''Peter''\<rparr>,
                       Role = ''collaborator''\<rparr>,
          Elapsed = 10\<rparr>\<rparr>,
      init example_now) \<and>
   articles (snd (serve (example_request\<lparr>route := ArticleID ''2'' ArticleDelete\<rparr>)
                   (init example_now))) = [0, 2, 3, 4] \<and>
   serve (example_request\<lparr>route := ArticleID ''42'' ArticlePut\<rparr>) (init example_now) =
     (\<lparr>status = 404,
       payload = JErr \<lparr>Err = None, HTTPStatusCode = 404, StatusText = ''Resource not found.'',
                       AppCode = 0, ErrorText = None\<rparr>\<rparr>,
      init example_now)"
proof -
  let ?st = "init example_now"
  let ?g = "example_request\<lparr>route := ArticleID ''1'' ArticleGet\<rparr>"
  let ?d = "example_request\<lparr>route := ArticleID ''2'' ArticleDelete\<rparr>"
  let ?n = "example_request\<lparr>route := ArticleID ''42'' ArticlePut\<rparr>"
  have st: "?st = run [] ?st" by simp
  have a: "articles ?st = [0, 1, 2, 3, 4]" and h: "heap ?st = fixture_heap"
    by (simp_all add: init_def)
  have g1: "route ?g = ArticleID ''1'' ArticleGet" and d1: "route ?d = ArticleID ''2'' ArticleDelete"
    and n1: "route ?n = ArticleID ''42'' ArticlePut"
    by simp_all
  have gi: "(0::nat) < length (articles ?st) \<and> Article.ID (heap ?st (articles ?st ! 0)) = ''1'' \<and>
      (\<forall>j<0. Article.ID (heap ?st (articles ?st ! j)) \<noteq> ''1'')"
    by (simp add: a h fixture_heap_def)
  have di: "(1::nat) < length (articles ?st) \<and> Article.ID (heap ?st (articles ?st ! 1)) = ''2'' \<and>
      (\<forall>j<1. Article.ID (heap ?st (articles ?st ! j)) \<noteq> ''2'')"
    by (simp add: a h fixture_heap_def)
  have ni: "\<forall>a\<in>set (articles ?st). Article.ID (heap ?st a) \<noteq> ''42''"
    by (simp add: a h fixture_heap_def)
  have u: "dbGetUser 100 ?st = Some \<lparr>User.ID = 100, Name = ''Peter''\<rparr>"
    by (simp add: dbGetUser_def init_def)
  have ra: "render_Article (articles ?st ! 0) ?st =
      \<lparr>ArticleResponse.Article =
            \<lparr>Article.ID = ''1'', UserID = 100, Title = ''Hi'', Slug = ''hi''\<rparr>,
          User = Some \<lparr>UserPayload.User = Some \<lparr>User.ID = 100, Name = ''Peter''\<rparr>,
                       Role = ''collaborator''\<rparr>,
          Elapsed = 10\<rparr>"
    by (simp add: a h fixture_heap_def render_Article_def ArticleResponse_Render_def
        NewArticleResponse_def u NewUserPayloadResponse_def UserPayload_Render_def)
  from C4_article_by_id [OF g1 st] gi
  have "serve ?g ?st = (\<lparr>status = 200, payload = JArticle (render_Article (articles ?st ! 0) ?st)\<rparr>, ?st)"
    by blast
  then have 1: "serve ?g ?st =
     (\<lparr>status = 200,
       payload = JArticle
         \<lparr>ArticleResponse.Article =
            \<lparr>Article.ID = ''1'', UserID = 100, Title = ''Hi'', Slug = ''hi''\<rparr>,
          User = Some \<lparr>UserPayload.User = Some \<lparr>User.ID = 100, Name = ''Peter''\<rparr>,
                       Role = ''collaborator''\<rparr>,
          Elapsed = 10\<rparr>\<rparr>, ?st)"
    by (simp only: ra)
  from C4_article_by_id [OF d1 st] di
  have "snd (serve ?d ?st) = ?st\<lparr>articles := take 1 (articles ?st) @ drop (Suc 1) (articles ?st)\<rparr>"
    by blast
  then have 2: "articles (snd (serve ?d ?st)) = [0, 2, 3, 4]"
    by (simp add: a)
  from C4_article_by_id [OF n1 st] ni
  have 3: "serve ?n ?st =
     (\<lparr>status = 404,
       payload = JErr \<lparr>Err = None, HTTPStatusCode = 404, StatusText = ''Resource not found.'',
                       AppCode = 0, ErrorText = None\<rparr>\<rparr>, ?st)"
    by blast
  from 1 2 3 show ?thesis by blast
qed

text \<open>
  C5. A \<open>PUT /rest/v1/temp\<close> whose body binds to a \<open>Temp\<close> record assigns the
  record's \<open>daytemp\<close>, \<open>nighttemp\<close> and \<open>thereshold\<close> to \<open>DayTemp\<close>,
  \<open>NightTemp\<close> and \<open>Thereshold\<close>, leaves every other variable as it is, and answers
  with these three values as stored. The three members of the body are the three fields
  of the record; a member whose key is \<open>thereshold\<close> written with a long s is the field
  \<open>Thereshold\<close> too.
\<close>

theorem C5_UpdateTemp:
  assumes "route r = PUT_temp"
    and "render_Bind Temp_field Temp_Bind (body r)
           \<lparr>Temp.CurrentTemp = '''', NightTemp = '''', DayTemp = '''', Thereshold = ''''\<rparr>
         = (temp, None)"
  shows "snd (serve r st) =
           st\<lparr>state.DayTemp := Temp.DayTemp temp, state.NightTemp := Temp.NightTemp temp,
              state.Thereshold := Temp.Thereshold temp\<rparr> \<and>
         fst (serve r st) =
           \<lparr>status = 200, payload = JTemp (dbGetTemp (rand_Float64 r) (snd (serve r st)))\<rparr> \<and>
         Temp.DayTemp (dbGetTemp (rand_Float64 r) (snd (serve r st))) = Temp.DayTemp temp \<and>
         Temp.NightTemp (dbGetTemp (rand_Float64 r) (snd (serve r st))) = Temp.NightTemp temp \<and>
         Temp.Thereshold (dbGetTemp (rand_Float64 r) (snd (serve r st))) = Temp.Thereshold temp \<and>
         (\<forall>x y z. render_Bind Temp_field Temp_Bind
                    (Json (JObj [(''daytemp'', JStr x), (''nighttemp'', JStr y),
                                 (''thereshold'', JStr z)]))
                    \<lparr>Temp.CurrentTemp = '''', NightTemp = '''', DayTemp = '''', Thereshold = ''''\<rparr>
                  = (\<lparr>Temp.CurrentTemp = '''', NightTemp = y, DayTemp = x, Thereshold = z\<rparr>, None)) \<and>
         (\<forall>z. render_Bind Temp_field Temp_Bind
                (Json (JObj [(''there'' @ [CHR 0xC5, CHR 0xBF] @ ''hold'', JStr z)]))
                \<lparr>Temp.CurrentTemp = '''', NightTemp = '''', DayTemp = '''', Thereshold = ''''\<rparr>
              = (\<lparr>Temp.CurrentTemp = '''', NightTemp = '''', DayTemp = '''', Thereshold = z\<rparr>, None))"
proof -
  have s: "serve r st =
      (\<lparr>status = 200, payload = JTemp (dbGetTemp (rand_Float64 r) (dbUpdateTemp temp st))\<rparr>,
       dbUpdateTemp temp st)"
    using assms by (simp add: serve_def UpdateTemp_def Let_def)
  have b: "\<forall>x y z. render_Bind Temp_field Temp_Bind
                    (Json (JObj [(''daytemp'', JStr x), (''nighttemp'', JStr y),
                                 (''thereshold'', JStr z)]))
                    \<lparr>Temp.CurrentTemp = '''', NightTemp = '''', DayTemp = '''', Thereshold = ''''\<rparr>
                  = (\<lparr>Temp.CurrentTemp = '''', NightTemp = y, DayTemp = x, Thereshold = z\<rparr>, None)"
    by (simp add: decode_defs Temp_field_def Temp_Bind_def)
  have c: "\<forall>z. render_Bind Temp_field Temp_Bind
                (Json (JObj [(''there'' @ [CHR 0xC5, CHR 0xBF] @ ''hold'', JStr z)]))
                \<lparr>Temp.CurrentTemp = '''', NightTemp = '''', DayTemp = '''', Thereshold = ''''\<rparr>
              = (\<lparr>Temp.CurrentTemp = '''', NightTemp = '''', DayTemp = '''', Thereshold = z\<rparr>, None)"
    by (simp add: decode_defs Temp_field_def Temp_Bind_def)
  show ?thesis
    unfolding s using b c by (simp add: dbUpdateTemp_def dbGetTemp_def)
qed

theorem C5_UpdateTemp_witness:
  "serve (example_request\<lparr>route := PUT_temp,
            body := Json (JObj [(''daytemp'', JStr ''25.50''), (''nighttemp'', JStr ''17.00''),
                                (''thereshold'', JStr ''0.30'')])\<rparr>)
         (init example_now) =
     (\<lparr>status = 200,
       payload = JTemp \<lparr>Temp.CurrentTemp = ''2.500000'', NightTemp = ''17.00'', DayTemp = ''25.50'',
                        Thereshold = ''0.30''\<rparr>\<rparr>,
      (init example_now)\<lparr>state.DayTemp := ''25.50'', state.NightTemp := ''17.00'',
                           state.Thereshold := ''0.30''\<rparr>)"
proof -
  let ?r = "example_request\<lparr>route := PUT_temp,
            body := Json (JObj [(''daytemp'', JStr ''25.50''), (''nighttemp'', JStr ''17.00''),
                                (''thereshold'', JStr ''0.30'')])\<rparr>"
  let ?t = "\<lparr>Temp.CurrentTemp = '''', NightTemp = ''17.00'', DayTemp = ''25.50'',
             Thereshold = ''0.30''\<rparr>"
  let ?st = "init example_now"
  let ?st' = "?st\<lparr>state.DayTemp := ''25.50'', state.NightTemp := ''17.00'',
                   state.Thereshold := ''0.30''\<rparr>"
  have h1: "route ?r = PUT_temp" by simp
  have h2: "render_Bind Temp_field Temp_Bind (body ?r)
           \<lparr>Temp.CurrentTemp = '''', NightTemp = '''', DayTemp = '''', Thereshold = ''''\<rparr>
         = (?t, None)"
    by (simp add: decode_defs Temp_field_def Temp_Bind_def)
  have u: "rand_Float64 ?r = 1 / 4" by (simp add: example_request_def)
  have g: "dbGetTemp (1 / 4) ?st' =
      \<lparr>Temp.CurrentTemp = ''2.500000'', NightTemp = ''17.00'', DayTemp = ''25.50'',
       Thereshold = ''0.30''\<rparr>"
    unfolding dbGetTemp_def example_temp by simp
  note t = C5_UpdateTemp [OF h1 h2, of ?st]
  from t have 1: "snd (serve ?r ?st) = ?st'" by simp
  from t have "fst (serve ?r ?st) =
      \<lparr>status = 200, payload = JTemp (dbGetTemp (rand_Float64 ?r) (snd (serve ?r ?st)))\<rparr>"
    by blast
  then have 2: "fst (serve ?r ?st) =
      \<lparr>status = 200,
       payload = JTemp \<lparr>Temp.CurrentTemp = ''2.500000'', NightTemp = ''17.00'', DayTemp = ''25.50'',
                        Thereshold = ''0.30''\<rparr>\<rparr>"
    by (simp only: 1 u g)
  from 1 2 show ?thesis
    by (simp only: prod_eq_iff fst_conv snd_conv simp_thms)
qed

lemma failed_bind_elsewhere:
  "(route r = PUT_time \<and>
      snd (render_Bind Times_field Times_Bind (body r) \<lparr>Times.Day = '''', Night = ''''\<rparr>) = Some err \<longrightarrow>
      serve r st = (render_ErrResponse (ErrInvalidRequest err), st)) \<and>
   (route r = PUT_temp \<and>
      snd (render_Bind Temp_field Temp_Bind (body r)
             \<lparr>Temp.CurrentTemp = '''', NightTemp = '''', DayTemp = '''', Thereshold = ''''\<rparr>) = Some err \<longrightarrow>
      serve r st = (render_ErrResponse (ErrInvalidRequest err), st)) \<and>
   (route r = PUT_mode \<and>
      snd (render_Bind ModesIn_field ModesIn_Bind (body r) \<lparr>ModesIn.Mode = '''', Heating = ''''\<rparr>) = Some err \<longrightarrow>
      serve r st = (render_ErrResponse (ErrInvalidRequest err), st)) \<and>
   (route r = POST_articles \<and>
      snd (render_Bind (ArticleRequest_field (fresh st)) ArticleRequest_Bind (body r)
             (heap st, ArticleRequest_empty)) = Some err \<longrightarrow>
      fst (serve r st) = render_ErrResponse (ErrInvalidRequest err) \<and>
      snd (serve r st)\<lparr>heap := heap st\<rparr> = st \<and>
      (\<forall>q\<in>set (articles st). heap (snd (serve r st)) q = heap st q)) \<and>
   status (render_ErrResponse (ErrInvalidRequest err)) = 400 \<and>
   payload (render_ErrResponse (ErrInvalidRequest err)) =
     JErr \<lparr>Err = Some err, HTTPStatusCode = 400, StatusText = ''Invalid request.'', AppCode = 0,
           ErrorText = Some err\<rparr>"
proof (intro conjI impI ballI)
  assume "route r = POST_articles \<and>
      snd (render_Bind (ArticleRequest_field (fresh st)) ArticleRequest_Bind (body r)
             (heap st, ArticleRequest_empty)) = Some err"
  then have p: "route r = POST_articles"
    and e: "snd (render_Bind (ArticleRequest_field (fresh st)) ArticleRequest_Bind (body r)
             (heap st, ArticleRequest_empty)) = Some err"
    by simp_all
  from p CreateArticle_err [OF e]
  show "fst (serve r st) = render_ErrResponse (ErrInvalidRequest err)"
    by (simp add: serve_def)
  from p e show "snd (serve r st)\<lparr>heap := heap st\<rparr> = st"
    by (simp add: serve_def CreateArticle_def Let_def)
  fix q assume "q \<in> set (articles st)"
  with p show "heap (snd (serve r st)) q = heap st q"
    by (simp add: serve_def CreateArticle_heap_articles)
qed (simp_all add: serve_def UpdateTime_def UpdateTemp_def UpdateMode_def Let_def
      render_ErrResponse_def ErrInvalidRequest_def)

lemma failed_bind_UpdateArticle:
  assumes "route r = ArticleID aid ArticlePut"
  shows "articles (snd (serve r st)) = articles st \<and>
         (\<forall>q. Article.ID (heap (snd (serve r st)) q) = Article.ID (heap st q)) \<and>
         (\<forall>q\<in>set (articles st). Article.ID (heap st q) \<noteq> aid \<longrightarrow>
            heap (snd (serve r st)) q = heap st q)"
proof (intro conjI allI ballI impI)
  show "articles (snd (serve r st)) = articles st"
    using assms by (rule serve_put_articles)
  show "Article.ID (heap (snd (serve r st)) q) = Article.ID (heap st q)" for q
    using assms by (rule serve_put_ids)
  fix q assume q: "Article.ID (heap st q) \<noteq> aid"
  let ?r = "r\<lparr>URLParams := [(''articleID'', aid)]\<rparr>"
  have s: "serve r st = ArticleCtx (article_routes ArticlePut) ?r st"
    using assms by (simp add: serve_def)
  show "heap (snd (serve r st)) q = heap st q"
  proof (cases "aid \<noteq> '''' \<and> first_index (\<lambda>a. Article.ID (heap st a) = aid) (articles st) \<noteq> None")
    case True
    then obtain i where ne: "aid \<noteq> ''''"
      and fi: "first_index (\<lambda>a. Article.ID (heap st a) = aid) (articles st) = Some i"
      by blast
    let ?r' = "r\<lparr>URLParams := [(''articleID'', aid)],
                 ctx := (ctx r)(''article'' \<mapsto> CArticle (articles st ! i))\<rparr>"
    from fi have "Article.ID (heap st (articles st ! i)) = aid"
      by (simp add: first_index_Some_iff)
    with q have "ctx ?r' ''article'' \<noteq> Some (CArticle q)" by auto
    moreover have "serve r st = UpdateArticle ?r' st"
      by (simp add: s ArticleCtx_ID_found [OF ne fi] article_routes_def)
    ultimately show ?thesis
      using UpdateArticle_heap [of ?r' q st] by simp
  next
    case False
    then have "serve r st = (render_ErrResponse ErrNotFound, st)"
      by (auto simp: s ArticleCtx_def URLParam_simps dbGetArticle_def find_first_index Let_def)
    then show ?thesis by simp
  qed
qed

lemma failed_bind_UpdateArticle_400:
  assumes "route r = ArticleID aid ArticlePut" and "aid \<noteq> ''''"
    and "first_index (\<lambda>a. Article.ID (heap st a) = aid) (articles st) = Some i"
    and "snd (render_Bind (ArticleRequest_field (fresh st)) ArticleRequest_Bind (body r)
               (heap st, ArticleRequest_empty\<lparr>ArticleRequest.Article := Some (articles st ! i)\<rparr>))
         = Some err"
  shows "fst (serve r st) = render_ErrResponse (ErrInvalidRequest err)"
proof -
  let ?r' = "r\<lparr>URLParams := [(''articleID'', aid)],
               ctx := (ctx r)(''article'' \<mapsto> CArticle (articles st ! i))\<rparr>"
  have "serve r st = ArticleCtx (article_routes ArticlePut) (r\<lparr>URLParams := [(''articleID'', aid)]\<rparr>) st"
    using assms(1) by (simp add: serve_def)
  then have "serve r st = UpdateArticle ?r' st"
    by (simp add: ArticleCtx_ID_found [OF assms(2,3)] article_routes_def)
  then show ?thesis
    using assms(4) by (simp add: UpdateArticle_def Let_def)
qed

text \<open>
  C6. A body that fails to bind is answered with status 400 and the status text
  \<open>Invalid request.\<close>; on \<open>PUT /rest/v1/time\<close>, \<open>/temp\<close> and \<open>/mode\<close> the state is
  as before, and on \<open>POST /rest/v1\<close> every variable and every article of the slice is.
  \<open>UpdateArticle\<close> decodes into the stored article itself, so on
  \<open>PUT /rest/v1/{articleID}\<close> the members decoded before or after a member of the wrong
  type are already stored when the 400 is sent: only the slice, the IDs and the other
  articles are as before.
\<close>

theorem C6_failed_bind_changes_article:
  "(let r = example_request\<lparr>route := ArticleID ''1'' ArticlePut,
              body := Json (JObj [(''title'', JStr ''X''), (''user_id'', JStr ''bad'')])\<rparr>;
        st = init example_now;
        st' = snd (serve r st)
    in fst (serve r st) =
         \<lparr>status = 400,
          payload = JErr \<lparr>Err = Some json_UnmarshalTypeError, HTTPStatusCode = 400,
                          StatusText = ''Invalid request.'', AppCode = 0,
                          ErrorText = Some json_UnmarshalTypeError\<rparr>\<rparr> \<and>
       heap st 0 = \<lparr>Article.ID = ''1'', UserID = 100, Title = ''Hi'', Slug = ''hi''\<rparr> \<and>
       heap st' 0 = \<lparr>Article.ID = ''1'', UserID = 100, Title = ''X'', Slug = ''hi''\<rparr> \<and>
       st' \<noteq> st \<and>
       articles st' = [0, 1, 2, 3, 4] \<and>
       fst (serve (example_request\<lparr>route := ArticleID ''1'' ArticleGet\<rparr>) st') =
         \<lparr>status = 200,
          payload = JArticle
            \<lparr>ArticleResponse.Article =
               \<lparr>Article.ID = ''1'', UserID = 100, Title = ''X'', Slug = ''hi''\<rparr>,
             User = Some \<lparr>UserPayload.User = Some \<lparr>User.ID = 100, Name = ''Peter''\<rparr>,
                          Role = ''collaborator''\<rparr>,
             Elapsed = 10\<rparr>\<rparr>)"
proof -
  let ?r = "example_request\<lparr>route := ArticleID ''1'' ArticlePut,
              body := Json (JObj [(''title'', JStr ''X''), (''user_id'', JStr ''bad'')])\<rparr>"
  let ?st = "init example_now"
  let ?st' = "?st\<lparr>heap := fixture_heap
      (0 := \<lparr>Article.ID = ''1'', UserID = 100, Title = ''X'', Slug = ''hi''\<rparr>)\<rparr>"
  have a: "articles ?st = [0, 1, 2, 3, 4]" and h: "heap ?st = fixture_heap"
    and us: "users ?st = [\<lparr>User.ID = 100, Name = ''Peter''\<rparr>, \<lparr>User.ID = 200, Name = ''Julia''\<rparr>]"
    by (simp_all add: init_def)
  have f: "find (\<lambda>a. Article.ID (fixture_heap a) = ''1'') [0, 1, 2, 3, 4] = Some 0"
    by (simp add: fixture_heap_def)
  have z: "fixture_heap 0 = \<lparr>Article.ID = ''1'', UserID = 100, Title = ''Hi'', Slug = ''hi''\<rparr>"
    by (simp add: fixture_heap_def)
  have s: "serve ?r ?st =
      (\<lparr>status = 400,
        payload = JErr \<lparr>Err = Some json_UnmarshalTypeError, HTTPStatusCode = 400,
                        StatusText = ''Invalid request.'', AppCode = 0,
                        ErrorText = Some json_UnmarshalTypeError\<rparr>\<rparr>, ?st')"
    by (simp add: handler_defs decode_defs a h f z)
  have n: "?st' \<noteq> ?st"
  proof
    assume "?st' = ?st"
    then have "heap ?st' 0 = heap ?st 0" by (rule arg_cong)
    then show False by (simp add: h z)
  qed
  have f': "dbGetArticle ''1'' ?st' = Inr 0"
    by (simp add: dbGetArticle_def a)
  have g: "fst (serve (example_request\<lparr>route := ArticleID ''1'' ArticleGet\<rparr>) ?st') =
         \<lparr>status = 200,
          payload = JArticle
            \<lparr>ArticleResponse.Article =
               \<lparr>Article.ID = ''1'', UserID = 100, Title = ''X'', Slug = ''hi''\<rparr>,
             User = Some \<lparr>UserPayload.User = Some \<lparr>User.ID = 100, Name = ''Peter''\<rparr>,
                          Role = ''collaborator''\<rparr>,
             Elapsed = 10\<rparr>\<rparr>"
    by (simp add: serve_def ArticleCtx_def URLParam_def article_routes_def GetArticle_def
        f' render_Article_def ArticleResponse_Render_def NewArticleResponse_def
        dbGetUser_def us NewUserPayloadResponse_def UserPayload_Render_def Let_def)
  show ?thesis
    unfolding Let_def s snd_conv fst_conv
    using n g by (simp add: h z a)
qed

text \<open>
  C7. A \<open>GET\<close> on the slug route, whose parameter matches \<open>[a-z-]+\<close>, is answered
  by slug: with the first article of the articles slice whose \<open>Slug\<close> is the parameter
  (status 200, the state as before), or with 404 and the status text
  \<open>Resource not found.\<close> when no article has that slug.
\<close>

theorem C7_slug_lookup:
  assumes "route r = GET_articleSlug slug" and "slug_pattern slug"
  shows "((\<forall>a\<in>set (articles st). Slug (heap st a) \<noteq> slug) \<longrightarrow>
            serve r st =
              (\<lparr>status = 404,
                payload = JErr \<lparr>Err = None, HTTPStatusCode = 404,
                                StatusText = ''Resource not found.'', AppCode = 0,
                                ErrorText = None\<rparr>\<rparr>, st)) \<and>
         (\<forall>i. i < length (articles st) \<and> Slug (heap st (articles st ! i)) = slug \<and>
              (\<forall>j<i. Slug (heap st (articles st ! j)) \<noteq> slug) \<longrightarrow>
              serve r st =
                (\<lparr>status = 200, payload = JArticle (render_Article (articles st ! i) st)\<rparr>, st) \<and>
              ArticleResponse.Article (render_Article (articles st ! i) st) =
                heap st (articles st ! i))"
proof -
  let ?P = "\<lambda>a. Slug (heap st a) = slug"
  from assms(2) have ne: "slug \<noteq> ''''" by (simp add: slug_pattern_def)
  have s: "serve r st =
      (case find ?P (articles st) of
         None \<Rightarrow> (render_ErrResponse ErrNotFound, st)
       | Some a \<Rightarrow> (\<lparr>status = 200, payload = JArticle (render_Article a st)\<rparr>, st))"
    using assms(1) ne
    by (simp add: serve_def ArticleCtx_def URLParam_simps dbGetArticleBySlug_def GetArticle_def
        Let_def split: option.splits)
  have nf: "(\<forall>a\<in>set (articles st). Slug (heap st a) \<noteq> slug) \<Longrightarrow> find ?P (articles st) = None"
    by (simp add: find_None_iff)
  have f: "find ?P (articles st) = Some (articles st ! i)"
    if "i < length (articles st)" "Slug (heap st (articles st ! i)) = slug"
      "\<forall>j<i. Slug (heap st (articles st ! j)) \<noteq> slug" for i
  proof -
    from that have "first_index ?P (articles st) = Some i"
      by (simp add: first_index_Some_iff)
    then show ?thesis
      by (simp add: find_first_index)
  qed
  show ?thesis
    using nf f
    by (auto simp: s render_ErrResponse_def ErrNotFound_def render_Article_def
        ArticleResponse_Render_def NewArticleResponse_def)
qed

theorem C7_slug_lookup_witness:
  "slug_pattern ''whats-up'' \<and>
   serve (example_request\<lparr>route := GET_articleSlug ''whats-up''\<rparr>) (init example_now) =
     (\<lparr>status = 200,
       payload = JArticle
         \<lparr>ArticleResponse.Article =
            \<lparr>Article.ID = ''5'', UserID = 500, Title = ''whats up'', Slug = ''whats-up''\<rparr>,
          User = None, Elapsed = 10\<rparr>\<rparr>,
      init example_now) \<and>
   slug_pattern ''hola'' \<and>
   status (fst (serve (example_request\<lparr>route := GET_articleSlug ''hola''\<rparr>) (init example_now))) = 404"
proof -
  let ?r = "example_request\<lparr>route := GET_articleSlug ''whats-up''\<rparr>"
  let ?r' = "example_request\<lparr>route := GET_articleSlug ''hola''\<rparr>"
  let ?st = "init example_now"
  have h1: "route ?r = GET_articleSlug ''whats-up''" by simp
  have h2: "slug_pattern ''whats-up''" by (simp add: slug_pattern_def)
  have h1': "route ?r' = GET_articleSlug ''hola''" by simp
  have h2': "slug_pattern ''hola''" by (simp add: slug_pattern_def)
  have a: "articles ?st = [0, 1, 2, 3, 4]" and h: "heap ?st = fixture_heap"
    by (simp_all add: init_def)
  have i: "(4::nat) < length (articles ?st) \<and> Slug (heap ?st (articles ?st ! 4)) = ''whats-up'' \<and>
      (\<forall>j<4. Slug (heap ?st (articles ?st ! j)) \<noteq> ''whats-up'')"
    by (simp add: a h fixture_heap_def less_Suc_eq numeral_nat)
  have n: "\<forall>a\<in>set (articles ?st). Slug (heap ?st a) \<noteq> ''hola''"
    by (simp add: a h fixture_heap_def)
  have u: "dbGetUser 500 ?st = None"
    by (simp add: dbGetUser_def init_def)
  from C7_slug_lookup [OF h1 h2, of ?st] i
  have "serve ?r ?st =
      (\<lparr>status = 200, payload = JArticle (render_Article (articles ?st ! 4) ?st)\<rparr>, ?st)"
    by blast
  moreover have "render_Article (articles ?st ! 4) ?st =
      \<lparr>ArticleResponse.Article =
            \<lparr>Article.ID = ''5'', UserID = 500, Title = ''whats up'', Slug = ''whats-up''\<rparr>,
          User = None, Elapsed = 10\<rparr>"
    by (simp add: a h fixture_heap_def render_Article_def ArticleResponse_Render_def
        NewArticleResponse_def u)
  moreover from C7_slug_lookup [OF h1' h2', of ?st] n
  have "status (fst (serve ?r' ?st)) = 404"
    by simp
  ultimately show ?thesis
    using h2 h2' by simp
qed

text \<open>
  C8. On every route of the admin router, also where the router itself has no route for
  the request: unless the request context holds the boolean \<open>true\<close> under
  \<open>acl.admin\<close>, \<open>AdminOnly\<close> answers 403 Forbidden, whatever the wrapped handler is,
  and the state is as before; when the context holds it, \<open>AdminOnly\<close> is the wrapped
  handler, and the admin routes answer.
\<close>

theorem C8_AdminOnly:
  assumes "route r = Admin t"
  shows "(ctx r ''acl.admin'' \<noteq> Some (CBool True) \<longrightarrow>
            serve r st = (\<lparr>status = 403, payload = Text (''Forbidden'' @ [CHR 0x0A])\<rparr>, st) \<and>
            (\<forall>next. AdminOnly next r st =
                      (\<lparr>status = 403, payload = Text (''Forbidden'' @ [CHR 0x0A])\<rparr>, st))) \<and>
         (ctx r ''acl.admin'' = Some (CBool True) \<longrightarrow>
            serve r st = admin_routes t r st \<and> (\<forall>next. AdminOnly next r st = next r st))"
proof -
  have a: "\<And>next. ctx r ''acl.admin'' \<noteq> Some (CBool True) \<Longrightarrow>
      AdminOnly next r st = (\<lparr>status = 403, payload = Text (''Forbidden'' @ [CHR 0x0A])\<rparr>, st)"
    by (auto simp: AdminOnly_def forbidden_def Let_def split: option.splits ctxval.splits)
  have b: "\<And>next. ctx r ''acl.admin'' = Some (CBool True) \<Longrightarrow> AdminOnly next r st = next r st"
    by (simp add: AdminOnly_def Let_def)
  have s: "serve r st = AdminOnly (admin_routes t) r st"
    using assms by (simp add: serve_def adminRouter_def)
  show ?thesis
    using a b s by simp
qed

theorem C8_AdminOnly_witness:
  "serve (example_request\<lparr>route := Admin AdminAccounts\<rparr>) (init example_now) =
     (\<lparr>status = 403, payload = Text (''Forbidden'' @ [CHR 0x0A])\<rparr>, init example_now) \<and>
   serve (example_request\<lparr>route := Admin AdminAccounts, ctx := [''acl.admin'' \<mapsto> CString ''true'']\<rparr>)
         (init example_now) =
     (\<lparr>status = 403, payload = Text (''Forbidden'' @ [CHR 0x0A])\<rparr>, init example_now) \<and>
   serve (example_request\<lparr>route := Admin AdminAccounts, ctx := [''acl.admin'' \<mapsto> CBool True]\<rparr>)
         (init example_now) =
     (\<lparr>status = 200, payload = Text ''admin: list accounts..''\<rparr>, init example_now)"
proof -
  let ?r1 = "example_request\<lparr>route := Admin AdminAccounts\<rparr>"
  let ?r2 = "example_request\<lparr>route := Admin AdminAccounts,
               ctx := [''acl.admin'' \<mapsto> CString ''true'']\<rparr>"
  let ?r3 = "example_request\<lparr>route := Admin AdminAccounts, ctx := [''acl.admin'' \<mapsto> CBool True]\<rparr>"
  have h1: "route ?r1 = Admin AdminAccounts" and h2: "route ?r2 = Admin AdminAccounts"
    and h3: "route ?r3 = Admin AdminAccounts"
    by simp_all
  have c1: "ctx ?r1 ''acl.admin'' \<noteq> Some (CBool True)" by (simp add: example_request_def)
  have c2: "ctx ?r2 ''acl.admin'' \<noteq> Some (CBool True)" by simp
  have c3: "ctx ?r3 ''acl.admin'' = Some (CBool True)" by simp
  show ?thesis
    using C8_AdminOnly [OF h1, of "init example_now"] C8_AdminOnly [OF h2, of "init example_now"]
      C8_AdminOnly [OF h3, of "init example_now"] c1 c2 c3
    by (simp add: admin_routes_def write_text_def)
qed

text \<open>
  C9. The \<open>id\<close> of a request body never reaches an article's \<open>ID\<close>. A member whose
  key is \<open>id\<close> (up to case folding) is stored into \<open>ProtectedID\<close> and changes nothing
  else; \<open>Bind\<close>, when it succeeds, leaves \<open>ProtectedID\<close> empty; decoding and binding
  any body keeps the \<open>ID\<close> of every article already allocated. So a create stores the
  generated ID whatever the body holds, and keeps the IDs of the articles in the slice;
  and an update keeps the slice and the ID of every article.
\<close>

theorem C9_id_protected:
  assumes "res = render_Bind (ArticleRequest_field fr) ArticleRequest_Bind b (h, a)"
  shows "(equalFold ''id'' k \<longrightarrow>
            ArticleRequest_field fr ((h, a), e) (k, v) =
              ((h, a\<lparr>ProtectedID := fst (store_string v (ProtectedID a))\<rparr>),
               e \<or> snd (store_string v (ProtectedID a)))) \<and>
         (snd res = None \<longrightarrow> ProtectedID (snd (fst res)) = '''') \<and>
         (ArticleRequest.Article a \<noteq> None \<longrightarrow>
            (\<forall>q. Article.ID (fst (fst res) q) = Article.ID (h q))) \<and>
         (ArticleRequest.Article a = None \<longrightarrow>
            (\<forall>q. q \<noteq> fr \<longrightarrow> Article.ID (fst (fst res) q) = Article.ID (h q))) \<and>
         (route r = POST_articles \<longrightarrow>
            (\<forall>q\<in>set (articles st).
               Article.ID (heap (snd (serve r st)) q) = Article.ID (heap st q)) \<and>
            (status (fst (serve r st)) = 201 \<longrightarrow>
               articles (snd (serve r st)) = articles st @ [fresh st] \<and>
               Article.ID (heap (snd (serve r st)) (fresh st)) = Sprintf_d (rand_Intn r + 10))) \<and>
         (route r = ArticleID aid ArticlePut \<longrightarrow>
            articles (snd (serve r st)) = articles st \<and>
            (\<forall>q. Article.ID (heap (snd (serve r st)) q) = Article.ID (heap st q)))"
proof (intro conjI impI allI ballI)
  assume "equalFold ''id'' k"
  then show "ArticleRequest_field fr ((h, a), e) (k, v) =
      ((h, a\<lparr>ProtectedID := fst (store_string v (ProtectedID a))\<rparr>),
       e \<or> snd (store_string v (ProtectedID a)))"
    by (simp add: ArticleRequest_field_def Let_def)
next
  assume "snd res = None"
  then show "ProtectedID (snd (fst res)) = ''''"
    unfolding assms using render_Bind_ok by blast
next
  have rel: "decode_rel fr (h, a) (fst res)"
    unfolding assms by (rule render_Bind_rel)
  {
    fix q
    assume "ArticleRequest.Article a \<noteq> None"
    with rel show "Article.ID (fst (fst res) q) = Article.ID (h q)"
      by (cases "q = target fr a") (auto simp: decode_rel_def target_def)
  }
  {
    fix q
    assume "ArticleRequest.Article a = None" and "q \<noteq> fr"
    with rel show "Article.ID (fst (fst res) q) = Article.ID (h q)"
      by (simp add: decode_rel_def target_def)
  }
next
  fix q
  assume "route r = POST_articles" and "q \<in> set (articles st)"
  then show "Article.ID (heap (snd (serve r st)) q) = Article.ID (heap st q)"
    by (simp add: serve_def CreateArticle_heap_articles)
next
  assume p: "route r = POST_articles" and "status (fst (serve r st)) = 201"
  then have "status (fst (CreateArticle r st)) = 201"
    by (simp add: serve_def)
  note ok = CreateArticle_ok [OF CreateArticle_201 [OF this]]
  from ok p show "articles (snd (serve r st)) = articles st @ [fresh st]"
    by (simp add: serve_def)
  from ok p show "Article.ID (heap (snd (serve r st)) (fresh st)) = Sprintf_d (rand_Intn r + 10)"
    by (simp add: serve_def)
next
  assume "route r = ArticleID aid ArticlePut"
  then show "articles (snd (serve r st)) = articles st"
    by (rule serve_put_articles)
next
  fix q
  assume "route r = ArticleID aid ArticlePut"
  then show "Article.ID (heap (snd (serve r st)) q) = Article.ID (heap st q)"
    by (rule serve_put_ids)
qed

theorem C9_id_protected_witness:
  "Article.ID (heap (snd (serve (example_request\<lparr>route := ArticleID ''1'' ArticlePut,
       body := Json (JObj [(''id'', JStr ''999''), (''title'', JStr ''New Title'')])\<rparr>)
     (init example_now))) 0) = ''1'' \<and>
   articles (snd (serve (example_request\<lparr>route := ArticleID ''1'' ArticlePut,
       body := Json (JObj [(''id'', JStr ''999''), (''title'', JStr ''New Title'')])\<rparr>)
     (init example_now))) = [0, 1, 2, 3, 4] \<and>
   status (fst (serve (example_request\<lparr>route := POST_articles,
       body := Json (JObj [(''id'', JStr ''will-be-omitted''), (''title'', JStr ''Awesomeness'')])\<rparr>)
     (init example_now))) = 201 \<and>
   Article.ID (heap (snd (serve (example_request\<lparr>route := POST_articles,
       body := Json (JObj [(''id'', JStr ''will-be-omitted''), (''title'', JStr ''Awesomeness'')])\<rparr>)
     (init example_now))) 5) = ''97'' \<and>
   ArticleRequest_field 5 ((fixture_heap, ArticleRequest_empty), False) (''Id'', JStr ''999'') =
     ((fixture_heap, ArticleRequest_empty\<lparr>ProtectedID := ''999''\<rparr>), False)"
proof -
  let ?st = "init example_now"
  let ?bu = "Json (JObj [(''id'', JStr ''999''), (''title'', JStr ''New Title'')])"
  let ?bc = "Json (JObj [(''id'', JStr ''will-be-omitted''), (''title'', JStr ''Awesomeness'')])"
  let ?u = "example_request\<lparr>route := ArticleID ''1'' ArticlePut, body := ?bu\<rparr>"
  let ?c = "example_request\<lparr>route := POST_articles, body := ?bc\<rparr>"
  have f: "fresh ?st = 5" by (simp add: fresh_def init_def)
  have a: "articles ?st = [0, 1, 2, 3, 4]" and h: "heap ?st = fixture_heap"
    by (simp_all add: init_def)
  have u1: "route ?u = ArticleID ''1'' ArticlePut" and c1: "route ?c = POST_articles"
    by simp_all
  have k: "equalFold ''id'' ''Id''"
    by (simp add: lower_char_def)
  have b: "snd (render_Bind (ArticleRequest_field (fresh ?st)) ArticleRequest_Bind (body ?c)
                (heap ?st, ArticleRequest_empty)) = None"
    by (simp add: decode_defs ArticleRequest_field_def ArticleRequest_Bind_def
        ArticleRequest_empty_def)
  have s: "status (fst (serve ?c ?st)) = 201"
    using CreateArticle_ok [OF b] by (simp add: serve_def)
  have n: "rand_Intn ?c = 87" by (simp add: example_request_def)
  have d: "Sprintf_d 97 = ''97''"
    by (simp add: Sprintf_d_def digits.simps digit_def)
  have i: "Article.ID (heap ?st 0) = ''1''"
    by (simp add: h fixture_heap_def)
  note u = C9_id_protected [OF refl, where r = ?u and aid = "''1''" and st = ?st and k = "''Id''"
      and fr = 5 and h = fixture_heap and a = ArticleRequest_empty and e = False
      and v = "JStr ''999''" and b = ?bu]
  note c = C9_id_protected [OF refl, where r = ?c and st = ?st and fr = 5 and h = fixture_heap
      and a = ArticleRequest_empty and b = ?bc]
  from u u1 have 1: "Article.ID (heap (snd (serve ?u ?st)) 0) = Article.ID (heap ?st 0)"
    and 2: "articles (snd (serve ?u ?st)) = articles ?st"
    by blast+
  from c c1 s have 3: "Article.ID (heap (snd (serve ?c ?st)) (fresh ?st)) = Sprintf_d (rand_Intn ?c + 10)"
    by blast
  from u k have 4: "ArticleRequest_field 5 ((fixture_heap, ArticleRequest_empty), False) (''Id'', JStr ''999'') =
      ((fixture_heap, ArticleRequest_empty\<lparr>ProtectedID := fst (store_string (JStr ''999'') (ProtectedID ArticleRequest_empty))\<rparr>),
       False \<or> snd (store_string (JStr ''999'') (ProtectedID ArticleRequest_empty)))"
    by blast
  from 1 2 3 4 s show ?thesis
    by (simp add: i a f n d)
qed

text \<open>
  C10. In every state the service reaches from its initial one, by requests of any kind,
  \<open>CurrentStateOfMode\<close> is \<open>night\<close>, \<open>CurrentStateOfHeating\<close> is \<open>off\<close>, and so
  are \<open>Mode[0]\<close> and \<open>Heating[0]\<close>; a \<open>GET /rest/v1/mode\<close> reports them.
\<close>

theorem C10_slot0_invariant:
  assumes "route r = GET_mode" and "st = run rs (init now)"
  shows "CurrentStateOfMode st = ''night'' \<and> CurrentStateOfHeating st = ''off'' \<and>
         fst (state.Mode st) = ''night'' \<and> fst (state.Heating st) = ''off'' \<and>
         serve r st =
           (\<lparr>status = 200,
             payload = JModes \<lparr>Modes.Mode = (''night'', snd (state.Mode st)),
                               Heating = (''off'', snd (state.Heating st))\<rparr>\<rparr>, st)"
proof -
  have "slot0 st" unfolding assms(2) by (rule slot0_run)
  moreover have "serve r st = (\<lparr>status = 200, payload = JModes (dbGetMode st)\<rparr>, st)"
    using assms(1) by (simp add: serve_def GetMode_def)
  moreover have "dbGetMode st =
      \<lparr>Modes.Mode = (fst (state.Mode st), snd (state.Mode st)),
       Heating = (fst (state.Heating st), snd (state.Heating st))\<rparr>"
    by (simp add: dbGetMode_def)
  ultimately show ?thesis
    by (simp add: slot0_def)
qed

theorem C10_slot0_invariant_witness:
  "fst (serve (example_request\<lparr>route := GET_mode\<rparr>)
     (run [example_request\<lparr>route := PUT_mode,
             body := Json (JObj [(''mode'', JStr ''day''), (''heting'', JStr ''on'')])\<rparr>,
           example_request\<lparr>route := PUT_mode, body := Json (JObj [(''mode'', JStr ''auto'')])\<rparr>]
        (init example_now))) =
   \<lparr>status = 200,
    payload = JModes \<lparr>Modes.Mode = (''night'', ''auto''), Heating = (''off'', '''')\<rparr>\<rparr>"
proof -
  let ?g = "example_request\<lparr>route := GET_mode\<rparr>"
  let ?rs = "[example_request\<lparr>route := PUT_mode,
             body := Json (JObj [(''mode'', JStr ''day''), (''heting'', JStr ''on'')])\<rparr>,
           example_request\<lparr>route := PUT_mode, body := Json (JObj [(''mode'', JStr ''auto'')])\<rparr>]"
  let ?st = "run ?rs (init example_now)"
  have h1: "route ?g = GET_mode" by simp
  have m: "snd (state.Mode ?st) = ''auto''"
    by (simp add: serve_def UpdateMode_def decode_defs ModesIn_field_def ModesIn_Bind_def
        dbUpdateMode_def)
  have h: "snd (state.Heating ?st) = ''''"
    by (simp add: serve_def UpdateMode_def decode_defs ModesIn_field_def ModesIn_Bind_def
        dbUpdateMode_def)
  show ?thesis
    using C10_slot0_invariant [OF h1 refl, of ?rs example_now] by (simp only: m h fst_conv)
qed

end
